theory Spec2Isabelle
  imports Main "HOL-Library.Word"
begin

section \<open>Data model of the video-call hooks\<close>

text \<open>
  The development embeds \<^verbatim>\<open>src/lib/hooks/use-webrtc.ts\<close> and
  \<^verbatim>\<open>src/lib/hooks/use-socket.ts\<close>. The refs of the two hooks and the React state
  are fields of one record; every handler takes the record and returns it updated.
  Each handler runs to completion before the next one is dispatched (no other handler
  runs at an \<^verbatim>\<open>await\<close>), and a state update is visible to the next handler.
  What the browser and the socket library are asked to do is appended to the field
  \<open>trace\<close>, in call order. How the browser answers during one call (which promise
  rejects, which tracks a capture yields) is the argument \<open>env\<close> of that call.
\<close>

type_synonym jsstring = "16 word list"

datatype track_kind = Audio | Video

datatype MediaStreamTrack = Track (track_id: nat) (kind: track_kind)

type_synonym MediaStream = "MediaStreamTrack list"

datatype sdp_type = Offer | Answer

datatype RTCSessionDescriptionInit = Description sdp_type string

type_synonym RTCIceCandidateInit = string

datatype exn = NotAllowedError | OtherError

datatype RTCPeerConnectionState = New | Connecting | Connected | Disconnected | Failed | Closed

record Participant =
  userId :: string
  displayName :: jsstring

record OfferData =
  offer :: RTCSessionDescriptionInit
  offer_from :: Participant

record AnswerData =
  answer :: RTCSessionDescriptionInit
  answer_from :: Participant

record IceCandidateData =
  candidate :: RTCIceCandidateInit
  candidate_from :: Participant

record SessionEndedData =
  ended_sessionId :: string
  endedBy :: Participant

record SessionJoinedData =
  joined_sessionId :: string
  participants :: "string list"
  joined_isInitiator :: bool

record ChatMessage =
  chat_id :: jsstring
  message :: jsstring
  chat_from :: jsstring
  timestamp :: jsstring
  isSelf :: bool

record WebRTCState =
  localStream :: "MediaStream option"
  remoteStream :: "MediaStream option"
  isAudioEnabled :: bool
  isVideoEnabled :: bool
  isScreenSharing :: bool
  connectionState :: RTCPeerConnectionState
  isInitiator :: bool
  peerDisplayName :: "jsstring option"
  peerMediaState :: "(bool \<times> bool) option"

text \<open>
  The part of an \<^verbatim>\<open>RTCPeerConnection\<close> the hook reads or drives: the two descriptions,
  the remote candidates it has accepted (in the order accepted), and the track of each
  sender (the hook only makes senders with \<^verbatim>\<open>addTrack\<close> and only replaces a track by
  another track, so every sender carries a track).
\<close>

record RTCPeerConnection =
  remoteDescription :: "RTCSessionDescriptionInit option"
  localDescription :: "RTCSessionDescriptionInit option"
  remoteCandidates :: "RTCIceCandidateInit list"
  senders :: "MediaStreamTrack list"

datatype signal =
    JoinSession string
  | LeaveSession string
  | EndSession string
  | OfferSignal string RTCSessionDescriptionInit
  | AnswerSignal string RTCSessionDescriptionInit
  | IceCandidateSignal string RTCIceCandidateInit
  | MediaStateSignal string bool bool
  | ChatMessageSignal string jsstring

datatype timer = JoinRetry string

datatype effect =
    GetUserMedia
  | GetDisplayMedia
  | NewRTCPeerConnection
  | AddTrack nat
  | SetRemoteDescription RTCSessionDescriptionInit
  | AddIceCandidate RTCIceCandidateInit
  | CreateOffer
  | CreateAnswer
  | SetLocalDescription RTCSessionDescriptionInit
  | ReplaceTrack nat
  | ClosePeerConnection
  | StopTrack nat
  | IoConnect
  | IoDisconnect
  | Emit signal
  | SetTimeout timer nat
  | SetChatMessages ChatMessage
  | OnError string
  | OnSessionEnded jsstring

record engine =
  state :: WebRTCState
  chatMessages :: "ChatMessage list"
  peerConnectionRef :: "RTCPeerConnection option"
  localStreamRef :: "MediaStream option"
  cameraStreamRef :: "MediaStream option"
  screenStreamRef :: "MediaStream option"
  isInitiatorRef :: bool
  iceCandidatesQueueRef :: "RTCIceCandidateInit list"
  hasRemoteDescriptionRef :: bool
  socketRef :: "unit option"
  isConnected :: bool
  connectionError :: "string option"
  sessionId :: string
  selfDisplayName :: "jsstring option"
  trackEnabled :: "nat \<Rightarrow> bool"
  trackLive :: "nat \<Rightarrow> bool"
  nextTrackId :: nat
  timers :: "timer list"
  trace :: "effect list"

text \<open>
  The answers of the browser during one call. \<open>None\<close> or \<open>False\<close> is a rejected promise;
  a denied capture carries the exception it rejects with.
\<close>

record env =
  authToken :: "string option"
  acceptsRemote :: "RTCSessionDescriptionInit \<Rightarrow> bool"
  acceptsCandidate :: "RTCIceCandidateInit \<Rightarrow> bool"
  createdOffer :: "RTCSessionDescriptionInit option"
  createdAnswer :: "RTCSessionDescriptionInit option"
  acceptsLocal :: "RTCSessionDescriptionInit \<Rightarrow> bool"
  acceptsReplace :: bool
  userMedia :: "exn + track_kind list"
  isSecureContext :: bool
  hasGetDisplayMedia :: bool
  displayMedia :: "exn + track_kind list"
  freshId :: jsstring
  isoNow :: jsstring

datatype 'a outcome = Thrown exn engine | Returned 'a engine

definition andThen :: "'a outcome \<Rightarrow> ('a \<Rightarrow> engine \<Rightarrow> 'b outcome) \<Rightarrow> 'b outcome" where
  "andThen r f = (case r of Thrown e s \<Rightarrow> Thrown e s | Returned x s \<Rightarrow> f x s)"

definition emitted :: "effect \<Rightarrow> engine \<Rightarrow> engine" where
  "emitted e s = s\<lparr>trace := trace s @ [e]\<rparr>"

definition initialState :: WebRTCState where
  "initialState = \<lparr>localStream = None, remoteStream = None, isAudioEnabled = True,
     isVideoEnabled = True, isScreenSharing = False, connectionState = New,
     isInitiator = False, peerDisplayName = None, peerMediaState = None\<rparr>"

section \<open>The signaling adapter (use-socket.ts)\<close>

definition socket_emit :: "signal \<Rightarrow> engine \<Rightarrow> engine" where
  "socket_emit ev s = (if socketRef s \<noteq> None then emitted (Emit ev) s else s)"

definition connect :: "env \<Rightarrow> engine \<Rightarrow> engine" where
  "connect ev s =
     (case authToken ev of
        None \<Rightarrow> s\<lparr>connectionError := Some ''No authentication token available''\<rparr>
      | Some tok \<Rightarrow>
          if tok = [] then s\<lparr>connectionError := Some ''No authentication token available''\<rparr>
          else
            let s1 = (if socketRef s \<noteq> None then emitted IoDisconnect s else s)
            in (emitted IoConnect s1)\<lparr>socketRef := Some ()\<rparr>)"

definition disconnect :: "engine \<Rightarrow> engine" where
  "disconnect s =
     (if socketRef s \<noteq> None
      then (emitted IoDisconnect s)\<lparr>socketRef := None, isConnected := False\<rparr>
      else s)"

definition joinSession :: "string \<Rightarrow> engine \<Rightarrow> engine" where
  "joinSession sid s = socket_emit (JoinSession sid) s"

definition leaveSession :: "string \<Rightarrow> engine \<Rightarrow> engine" where
  "leaveSession sid s = socket_emit (LeaveSession sid) s"

definition endSessionCall :: "string \<Rightarrow> engine \<Rightarrow> engine" where
  "endSessionCall sid s = socket_emit (EndSession sid) s"

definition sendOffer :: "string \<Rightarrow> RTCSessionDescriptionInit \<Rightarrow> engine \<Rightarrow> engine" where
  "sendOffer sid d s = socket_emit (OfferSignal sid d) s"

definition sendAnswer :: "string \<Rightarrow> RTCSessionDescriptionInit \<Rightarrow> engine \<Rightarrow> engine" where
  "sendAnswer sid d s = socket_emit (AnswerSignal sid d) s"

definition sendMediaState :: "string \<Rightarrow> bool \<Rightarrow> bool \<Rightarrow> engine \<Rightarrow> engine" where
  "sendMediaState sid a v s = socket_emit (MediaStateSignal sid a v) s"

definition socket_sendChatMessage :: "string \<Rightarrow> jsstring \<Rightarrow> engine \<Rightarrow> engine" where
  "socket_sendChatMessage sid m s = socket_emit (ChatMessageSignal sid m) s"

section \<open>The media engine as the hook drives it\<close>

text \<open>
  \<^verbatim>\<open>setRemoteDescription\<close>, \<^verbatim>\<open>addIceCandidate\<close>, \<^verbatim>\<open>createAnswer\<close>,
  \<^verbatim>\<open>createOffer\<close> and \<^verbatim>\<open>setLocalDescription\<close> on the connection the ref holds.
  Each call is recorded, then resolves or rejects. A candidate is rejected by every
  browser while the connection has no remote description.
\<close>

definition setRemoteDescription ::
  "env \<Rightarrow> RTCSessionDescriptionInit \<Rightarrow> engine \<Rightarrow> unit outcome" where
  "setRemoteDescription ev d s =
     (let s1 = emitted (SetRemoteDescription d) s in
      case peerConnectionRef s1 of
        None \<Rightarrow> Thrown OtherError s1
      | Some pc \<Rightarrow>
          if acceptsRemote ev d
          then Returned () (s1\<lparr>peerConnectionRef := Some (pc\<lparr>remoteDescription := Some d\<rparr>)\<rparr>)
          else Thrown OtherError s1)"

definition addIceCandidate :: "env \<Rightarrow> RTCIceCandidateInit \<Rightarrow> engine \<Rightarrow> unit outcome" where
  "addIceCandidate ev c s =
     (let s1 = emitted (AddIceCandidate c) s in
      case peerConnectionRef s1 of
        None \<Rightarrow> Thrown OtherError s1
      | Some pc \<Rightarrow>
          if remoteDescription pc \<noteq> None \<and> acceptsCandidate ev c
          then Returned ()
                 (s1\<lparr>peerConnectionRef := Some (pc\<lparr>remoteCandidates := remoteCandidates pc @ [c]\<rparr>)\<rparr>)
          else Thrown OtherError s1)"

fun addIceCandidates :: "env \<Rightarrow> RTCIceCandidateInit list \<Rightarrow> engine \<Rightarrow> unit outcome" where
  "addIceCandidates ev [] s = Returned () s"
| "addIceCandidates ev (c # cs) s =
     andThen (addIceCandidate ev c s) (\<lambda>_ s'. addIceCandidates ev cs s')"

definition createAnswer :: "env \<Rightarrow> engine \<Rightarrow> RTCSessionDescriptionInit outcome" where
  "createAnswer ev s =
     (let s1 = emitted CreateAnswer s in
      case createdAnswer ev of None \<Rightarrow> Thrown OtherError s1 | Some a \<Rightarrow> Returned a s1)"

definition pc_createOffer :: "env \<Rightarrow> engine \<Rightarrow> RTCSessionDescriptionInit outcome" where
  "pc_createOffer ev s =
     (let s1 = emitted CreateOffer s in
      case createdOffer ev of None \<Rightarrow> Thrown OtherError s1 | Some a \<Rightarrow> Returned a s1)"

definition setLocalDescription ::
  "env \<Rightarrow> RTCSessionDescriptionInit \<Rightarrow> engine \<Rightarrow> unit outcome" where
  "setLocalDescription ev d s =
     (let s1 = emitted (SetLocalDescription d) s in
      case peerConnectionRef s1 of
        None \<Rightarrow> Thrown OtherError s1
      | Some pc \<Rightarrow>
          if acceptsLocal ev d
          then Returned () (s1\<lparr>peerConnectionRef := Some (pc\<lparr>localDescription := Some d\<rparr>)\<rparr>)
          else Thrown OtherError s1)"

definition stopTrack :: "MediaStreamTrack \<Rightarrow> engine \<Rightarrow> engine" where
  "stopTrack t s = (emitted (StopTrack (track_id t)) s)\<lparr>trackLive := (trackLive s)(track_id t := False)\<rparr>"

definition stopTracks :: "MediaStream \<Rightarrow> engine \<Rightarrow> engine" where
  "stopTracks st s = fold stopTrack st s"

definition closePeerConnection :: "engine \<Rightarrow> engine" where
  "closePeerConnection s =
     (if peerConnectionRef s \<noteq> None
      then (emitted ClosePeerConnection s)\<lparr>peerConnectionRef := None\<rparr>
      else s)"

section \<open>Signaling handlers (use-webrtc.ts)\<close>

definition handleOffer_try :: "env \<Rightarrow> OfferData \<Rightarrow> engine \<Rightarrow> unit outcome" where
  "handleOffer_try ev d s =
     andThen (setRemoteDescription ev (offer d) s) (\<lambda>_ s1.
       let s2 = s1\<lparr>hasRemoteDescriptionRef := True\<rparr> in
       andThen (addIceCandidates ev (iceCandidatesQueueRef s2) s2) (\<lambda>_ s3.
         let s4 = s3\<lparr>iceCandidatesQueueRef := []\<rparr> in
         andThen (createAnswer ev s4) (\<lambda>a s5.
           andThen (setLocalDescription ev a s5) (\<lambda>_ s6.
             let s7 = sendAnswer (sessionId s6) a s6 in
             Returned ()
               (s7\<lparr>state := (state s7)\<lparr>peerDisplayName := Some (displayName (offer_from d))\<rparr>\<rparr>)))))"

definition handleOffer :: "env \<Rightarrow> OfferData \<Rightarrow> engine \<Rightarrow> engine" where
  "handleOffer ev d s =
     (if peerConnectionRef s = None then s
      else case handleOffer_try ev d s of
             Returned _ s' \<Rightarrow> s'
           | Thrown _ s' \<Rightarrow> emitted (OnError ''Failed to handle incoming call'') s')"

definition handleAnswer_try :: "env \<Rightarrow> AnswerData \<Rightarrow> engine \<Rightarrow> unit outcome" where
  "handleAnswer_try ev d s =
     andThen (setRemoteDescription ev (answer d) s) (\<lambda>_ s1.
       let s2 = s1\<lparr>hasRemoteDescriptionRef := True\<rparr> in
       andThen (addIceCandidates ev (iceCandidatesQueueRef s2) s2) (\<lambda>_ s3.
         let s4 = s3\<lparr>iceCandidatesQueueRef := []\<rparr> in
         Returned ()
           (s4\<lparr>state := (state s4)\<lparr>peerDisplayName := Some (displayName (answer_from d))\<rparr>\<rparr>)))"

definition handleAnswer :: "env \<Rightarrow> AnswerData \<Rightarrow> engine \<Rightarrow> engine" where
  "handleAnswer ev d s =
     (if peerConnectionRef s = None then s
      else case handleAnswer_try ev d s of
             Returned _ s' \<Rightarrow> s'
           | Thrown _ s' \<Rightarrow> emitted (OnError ''Failed to establish connection'') s')"

definition handleIceCandidate :: "env \<Rightarrow> IceCandidateData \<Rightarrow> engine \<Rightarrow> engine" where
  "handleIceCandidate ev d s =
     (if peerConnectionRef s = None then s
      else if \<not> hasRemoteDescriptionRef s
      then s\<lparr>iceCandidatesQueueRef := iceCandidatesQueueRef s @ [candidate d]\<rparr>
      else case addIceCandidate ev (candidate d) s of
             Returned _ s' \<Rightarrow> s'
           | Thrown _ s' \<Rightarrow> s')"

definition handleUserLeft :: "engine \<Rightarrow> engine" where
  "handleUserLeft s =
     (let s1 = closePeerConnection s in
      s1\<lparr>state := (state s1)\<lparr>remoteStream := None, connectionState := New,
                               peerDisplayName := None, peerMediaState := None\<rparr>\<rparr>)"

definition stopStreamRefs :: "engine \<Rightarrow> engine" where
  "stopStreamRefs s =
     (let s1 = (case screenStreamRef s of None \<Rightarrow> s
                | Some st \<Rightarrow> (stopTracks st s)\<lparr>screenStreamRef := None\<rparr>);
          s2 = (case cameraStreamRef s1 of None \<Rightarrow> s1
                | Some st \<Rightarrow> (stopTracks st s1)\<lparr>cameraStreamRef := None\<rparr>)
      in (case localStreamRef s2 of None \<Rightarrow> s2
          | Some st \<Rightarrow> (stopTracks st s2)\<lparr>localStreamRef := None\<rparr>))"

definition handleSessionEnded :: "SessionEndedData \<Rightarrow> engine \<Rightarrow> engine" where
  "handleSessionEnded d s =
     (let s1 = closePeerConnection s;
          s2 = stopStreamRefs s1;
          s3 = s2\<lparr>hasRemoteDescriptionRef := False, iceCandidatesQueueRef := [],
                  state := initialState\<rparr>
      in emitted (OnSessionEnded (displayName (endedBy d))) s3)"

definition endSession :: "engine \<Rightarrow> engine" where
  "endSession s =
     (let s1 = stopStreamRefs s;
          s2 = closePeerConnection s1;
          s3 = endSessionCall (sessionId s2) s2;
          s4 = leaveSession (sessionId s3) s3;
          s5 = disconnect s4
      in s5\<lparr>hasRemoteDescriptionRef := False, iceCandidatesQueueRef := [],
            state := initialState\<rparr>)"

definition newPeerConnection :: "MediaStream \<Rightarrow> RTCPeerConnection" where
  "newPeerConnection st =
     \<lparr>remoteDescription = None, localDescription = None, remoteCandidates = [], senders = st\<rparr>"

section \<open>Media acquisition, the peer connection, and offers\<close>

text \<open>
  A capture that is granted yields fresh tracks, live and enabled, one for each kind the
  browser reports.
\<close>

definition allocTracks :: "track_kind list \<Rightarrow> engine \<Rightarrow> MediaStream \<times> engine" where
  "allocTracks ks s =
     (let n = nextTrackId s;
          fresh = (\<lambda>i. n \<le> i \<and> i < n + length ks)
      in (map (\<lambda>(i, k). Track i k) (zip [n ..< n + length ks] ks),
          s\<lparr>nextTrackId := n + length ks,
            trackEnabled := (\<lambda>i. fresh i \<or> trackEnabled s i),
            trackLive := (\<lambda>i. fresh i \<or> trackLive s i)\<rparr>))"

definition initializeMedia :: "env \<Rightarrow> engine \<Rightarrow> MediaStream outcome" where
  "initializeMedia ev s =
     (let s1 = emitted GetUserMedia s in
      case userMedia ev of
        Inl e \<Rightarrow>
          Thrown e
            (emitted (OnError ''Failed to access camera/microphone. Please check permissions.'') s1)
      | Inr ks \<Rightarrow>
          let (st, s2) = allocTracks ks s1 in
          Returned st
            (s2\<lparr>cameraStreamRef := Some st, localStreamRef := Some st,
                state := (state s2)\<lparr>localStream := Some st, isAudioEnabled := True,
                                      isVideoEnabled := True, isScreenSharing := False\<rparr>\<rparr>))"

definition getDisplayMedia :: "env \<Rightarrow> engine \<Rightarrow> MediaStream outcome" where
  "getDisplayMedia ev s =
     (let s1 = emitted GetDisplayMedia s in
      case displayMedia ev of
        Inl e \<Rightarrow> Thrown e s1
      | Inr ks \<Rightarrow> let (st, s2) = allocTracks ks s1 in Returned st s2)"

definition createPeerConnection :: "engine \<Rightarrow> engine" where
  "createPeerConnection s =
     (let s1 = emitted NewRTCPeerConnection s;
          st = (case localStreamRef s1 of None \<Rightarrow> [] | Some st \<Rightarrow> st);
          s2 = s1\<lparr>trace := trace s1 @ map (\<lambda>t. AddTrack (track_id t)) st\<rparr>
      in s2\<lparr>peerConnectionRef := Some (newPeerConnection st)\<rparr>)"

definition createOffer_try :: "env \<Rightarrow> engine \<Rightarrow> unit outcome" where
  "createOffer_try ev s =
     (let s1 = (if peerConnectionRef s = None then createPeerConnection s else s) in
      andThen (pc_createOffer ev s1) (\<lambda>off s2.
        andThen (setLocalDescription ev off s2) (\<lambda>_ s3.
          Returned () (sendOffer (sessionId s3) off s3))))"

definition createOffer :: "env \<Rightarrow> engine \<Rightarrow> engine" where
  "createOffer ev s =
     (case createOffer_try ev s of
        Returned _ s' \<Rightarrow> s'
      | Thrown _ s' \<Rightarrow> emitted (OnError ''Failed to start call'') s')"

definition handleReadyToConnect :: "env \<Rightarrow> engine \<Rightarrow> engine" where
  "handleReadyToConnect ev s = (if isInitiatorRef s then createOffer ev s else s)"

definition onSessionJoined :: "SessionJoinedData \<Rightarrow> engine \<Rightarrow> engine" where
  "onSessionJoined d s =
     s\<lparr>isInitiatorRef := joined_isInitiator d,
       state := (state s)\<lparr>isInitiator := joined_isInitiator d\<rparr>\<rparr>"

section \<open>Chat\<close>

text \<open>
  \<^verbatim>\<open>String.prototype.trim\<close> strips the code units ECMAScript calls WhiteSpace or
  LineTerminator from both ends.
\<close>

definition isWhiteSpace :: "16 word \<Rightarrow> bool" where
  "isWhiteSpace c =
     (c = 0x0009 \<or> c = 0x000A \<or> c = 0x000B \<or> c = 0x000C \<or> c = 0x000D \<or> c = 0x0020
      \<or> c = 0x00A0 \<or> c = 0x1680 \<or> (0x2000 \<le> c \<and> c \<le> 0x200A) \<or> c = 0x2028
      \<or> c = 0x2029 \<or> c = 0x202F \<or> c = 0x205F \<or> c = 0x3000 \<or> c = 0xFEFF)"

definition trim :: "jsstring \<Rightarrow> jsstring" where
  "trim m = rev (dropWhile isWhiteSpace (rev (dropWhile isWhiteSpace m)))"

definition You :: jsstring where
  "You = [0x59, 0x6F, 0x75]"

definition sendChatMessage :: "env \<Rightarrow> jsstring \<Rightarrow> engine \<Rightarrow> engine" where
  "sendChatMessage ev msg s =
     (let trimmed = trim msg in
      if trimmed = [] then s
      else
        let m = \<lparr>chat_id = freshId ev, message = trimmed,
                 chat_from = (case selfDisplayName s of
                                None \<Rightarrow> You
                              | Some n \<Rightarrow> if n = [] then You else n),
                 timestamp = isoNow ev, isSelf = True\<rparr>;
            s1 = (emitted (SetChatMessages m) s)\<lparr>chatMessages := chatMessages s @ [m]\<rparr>
        in socket_sendChatMessage (sessionId s1) trimmed s1)"

section \<open>Screen sharing\<close>

fun findIndex :: "('a \<Rightarrow> bool) \<Rightarrow> 'a list \<Rightarrow> nat option" where
  "findIndex P [] = None"
| "findIndex P (x # xs) = (if P x then Some 0 else map_option Suc (findIndex P xs))"

definition firstTrack :: "track_kind \<Rightarrow> MediaStream option \<Rightarrow> MediaStreamTrack option" where
  "firstTrack k st = (case st of None \<Rightarrow> None | Some ts \<Rightarrow> List.find (\<lambda>t. kind t = k) ts)"

text \<open>The sender found is named by its position in \<^verbatim>\<open>pc.getSenders()\<close>.\<close>

definition getVideoSender :: "engine \<Rightarrow> nat option" where
  "getVideoSender s =
     (case peerConnectionRef s of
        None \<Rightarrow> None
      | Some pc \<Rightarrow> findIndex (\<lambda>t. kind t = Video) (senders pc))"

definition replaceTrack :: "env \<Rightarrow> nat \<Rightarrow> MediaStreamTrack \<Rightarrow> engine \<Rightarrow> unit outcome" where
  "replaceTrack ev i t s =
     (let s1 = emitted (ReplaceTrack (track_id t)) s in
      case peerConnectionRef s1 of
        None \<Rightarrow> Thrown OtherError s1
      | Some pc \<Rightarrow>
          if acceptsReplace ev
          then Returned () (s1\<lparr>peerConnectionRef := Some (pc\<lparr>senders := (senders pc)[i := t]\<rparr>)\<rparr>)
          else Thrown OtherError s1)"

text \<open>
  \<^verbatim>\<open>mediaEnabledRef\<close> is kept equal to the two enabled flags of the React state by an
  effect, so the preview reads them from the state.
\<close>

definition setLocalPreviewStream :: "MediaStreamTrack option \<Rightarrow> engine \<Rightarrow> engine" where
  "setLocalPreviewStream videoTrack s =
     (let audioTrack = firstTrack Audio (cameraStreamRef s);
          tracks = (case audioTrack of None \<Rightarrow> [] | Some a \<Rightarrow> [a])
                   @ (case videoTrack of None \<Rightarrow> [] | Some v \<Rightarrow> [v]);
          s1 = (case audioTrack of
                  None \<Rightarrow> s
                | Some a \<Rightarrow>
                    s\<lparr>trackEnabled := (trackEnabled s)(track_id a := isAudioEnabled (state s))\<rparr>);
          s2 = (case videoTrack of
                  None \<Rightarrow> s1
                | Some v \<Rightarrow>
                    s1\<lparr>trackEnabled := (trackEnabled s1)(track_id v := isVideoEnabled (state s1))\<rparr>)
      in s2\<lparr>localStreamRef := Some tracks,
            state := (state s2)\<lparr>localStream := Some tracks\<rparr>\<rparr>)"

definition stopScreenShare :: "env \<Rightarrow> engine \<Rightarrow> engine" where
  "stopScreenShare ev s =
     (if \<not> isScreenSharing (state s) then s
      else
        let cameraVideoTrack = firstTrack Video (cameraStreamRef s);
            s1 = (case screenStreamRef s of
                    None \<Rightarrow> s
                  | Some st \<Rightarrow> (stopTracks st s)\<lparr>screenStreamRef := None\<rparr>)
        in case cameraVideoTrack of
             None \<Rightarrow> s1\<lparr>state := (state s1)\<lparr>isScreenSharing := False\<rparr>\<rparr>
           | Some cv \<Rightarrow>
               let s2 = (case getVideoSender s1 of
                           None \<Rightarrow> s1
                         | Some i \<Rightarrow>
                             (case replaceTrack ev i cv s1 of
                                Returned _ s' \<Rightarrow> s'
                              | Thrown _ s' \<Rightarrow> s'));
                   s3 = setLocalPreviewStream (Some cv) s2
               in s3\<lparr>state := (state s3)\<lparr>isScreenSharing := False\<rparr>\<rparr>)"

definition startSharing :: "env \<Rightarrow> MediaStream \<Rightarrow> engine \<Rightarrow> unit outcome" where
  "startSharing ev screenStream s =
     (case firstTrack Video (Some screenStream) of
        None \<Rightarrow>
          Returned ()
            (emitted (OnError ''Failed to start screen sharing'') (stopTracks screenStream s))
      | Some sv \<Rightarrow>
          let s1 = s\<lparr>screenStreamRef := Some screenStream\<rparr> in
          case getVideoSender s1 of
            None \<Rightarrow>
              Returned ()
                (emitted (OnError ''Start the call first, then try screen sharing.'')
                   ((stopTracks screenStream s1)\<lparr>screenStreamRef := None\<rparr>))
          | Some i \<Rightarrow>
              andThen (replaceTrack ev i sv s1) (\<lambda>_ s2.
                let s3 = setLocalPreviewStream (Some sv) s2 in
                Returned () (s3\<lparr>state := (state s3)\<lparr>isScreenSharing := True\<rparr>\<rparr>)))"

definition toggleScreenShare_try :: "env \<Rightarrow> engine \<Rightarrow> unit outcome" where
  "toggleScreenShare_try ev s =
     (if \<not> isSecureContext ev
      then Returned ()
             (emitted (OnError
                ''Screen sharing requires HTTPS (or localhost). Open the app on https:// or http://localhost.'') s)
      else if \<not> hasGetDisplayMedia ev
      then Returned () (emitted (OnError ''Screen sharing is not supported in this browser.'') s)
      else
        andThen (if cameraStreamRef s = None then initializeMedia ev s else Returned [] s) (\<lambda>_ s1.
          andThen (getDisplayMedia ev s1) (\<lambda>screenStream s2. startSharing ev screenStream s2)))"

definition toggleScreenShare :: "env \<Rightarrow> engine \<Rightarrow> engine" where
  "toggleScreenShare ev s =
     (if isScreenSharing (state s) then stopScreenShare ev s
      else case toggleScreenShare_try ev s of
             Returned _ s' \<Rightarrow> s'
           | Thrown e s' \<Rightarrow>
               emitted (OnError (if e = NotAllowedError
                                 then ''Screen sharing was blocked. Please allow the permission and try again.''
                                 else ''Failed to start screen sharing'')) s')"

section \<open>Starting the session, timers, and the mute toggles\<close>

definition startSession_try :: "env \<Rightarrow> engine \<Rightarrow> unit outcome" where
  "startSession_try ev s =
     andThen (initializeMedia ev s) (\<lambda>_ s1.
       let s2 = createPeerConnection s1;
           s3 = connect ev s2;
           s4 = joinSession (sessionId s3) s3;
           s5 = (emitted (SetTimeout (JoinRetry (sessionId s4)) 700) s4)
                  \<lparr>timers := timers s4 @ [JoinRetry (sessionId s4)]\<rparr>
       in Returned () s5)"

definition startSession :: "env \<Rightarrow> engine \<Rightarrow> engine" where
  "startSession ev s =
     (case startSession_try ev s of
        Returned _ s' \<Rightarrow> s'
      | Thrown _ s' \<Rightarrow> emitted (OnError ''Failed to start video session'') s')"

text \<open>What a pending timer does when it fires, in the engine as it is then.\<close>

fun runTimer :: "timer \<Rightarrow> engine \<Rightarrow> engine" where
  "runTimer (JoinRetry sid) s = joinSession sid s"

definition toggleAudio :: "engine \<Rightarrow> engine" where
  "toggleAudio s =
     (case firstTrack Audio (localStreamRef s) of
        None \<Rightarrow> s
      | Some audioTrack \<Rightarrow>
          let newState = \<not> trackEnabled s (track_id audioTrack);
              s1 = s\<lparr>trackEnabled := (trackEnabled s)(track_id audioTrack := newState),
                     state := (state s)\<lparr>isAudioEnabled := newState\<rparr>\<rparr>
          in sendMediaState (sessionId s1) newState (isVideoEnabled (state s)) s1)"

definition toggleVideo :: "engine \<Rightarrow> engine" where
  "toggleVideo s =
     (case firstTrack Video (localStreamRef s) of
        None \<Rightarrow> s
      | Some videoTrack \<Rightarrow>
          let newState = \<not> trackEnabled s (track_id videoTrack);
              s1 = s\<lparr>trackEnabled := (trackEnabled s)(track_id videoTrack := newState),
                     state := (state s)\<lparr>isVideoEnabled := newState\<rparr>\<rparr>
          in sendMediaState (sessionId s1) (isAudioEnabled (state s)) newState s1)"

section \<open>Initial values and observations\<close>

text \<open>The refs and the state as \<^verbatim>\<open>useWebRTC\<close> and \<^verbatim>\<open>useSocket\<close> initialise them.\<close>

definition initialEngine :: "string \<Rightarrow> jsstring option \<Rightarrow> engine" where
  "initialEngine sid name =
     \<lparr>state = initialState, chatMessages = [], peerConnectionRef = None,
      localStreamRef = None, cameraStreamRef = None, screenStreamRef = None,
      isInitiatorRef = False, iceCandidatesQueueRef = [], hasRemoteDescriptionRef = False,
      socketRef = None, isConnected = False, connectionError = None,
      sessionId = sid, selfDisplayName = name,
      trackEnabled = (\<lambda>_. False), trackLive = (\<lambda>_. False), nextTrackId = 0,
      timers = [], trace = []\<rparr>"

text \<open>
  The tracks the hook holds through its three stream refs, the audio senders of the
  connection, the state both teardown paths leave behind, and the order of two effects
  in a trace: \<open>precedes a b xs\<close> holds when some \<open>a\<close> in \<open>xs\<close> has a \<open>b\<close> after it.
\<close>

definition streamTracks :: "MediaStream option \<Rightarrow> MediaStreamTrack list" where
  "streamTracks st = (case st of None \<Rightarrow> [] | Some ts \<Rightarrow> ts)"

definition localTracks :: "engine \<Rightarrow> MediaStreamTrack list" where
  "localTracks s =
     streamTracks (screenStreamRef s) @ streamTracks (cameraStreamRef s)
       @ streamTracks (localStreamRef s)"

definition audioSenders :: "engine \<Rightarrow> MediaStreamTrack list" where
  "audioSenders s =
     (case peerConnectionRef s of
        None \<Rightarrow> []
      | Some pc \<Rightarrow> filter (\<lambda>t. kind t = Audio) (senders pc))"

definition tornDown :: "engine \<Rightarrow> bool" where
  "tornDown s \<longleftrightarrow>
     screenStreamRef s = None \<and> cameraStreamRef s = None \<and> localStreamRef s = None
     \<and> peerConnectionRef s = None \<and> socketRef s = None
     \<and> \<not> hasRemoteDescriptionRef s \<and> iceCandidatesQueueRef s = [] \<and> state s = initialState"


section \<open>Sample engines and inputs\<close>

text \<open>
  A browser that grants and accepts everything, a peer, and engines at several points of
  a call: joined (socket and connection, no media), in a call (camera tracks 0 and 1 on
  the senders), with one candidate queued, awaiting the answer, and negotiated.
\<close>

definition acceptingEnv :: env where
  "acceptingEnv =
     \<lparr>authToken = Some ''jwt'', acceptsRemote = (\<lambda>_. True), acceptsCandidate = (\<lambda>_. True),
      createdOffer = Some (Description Offer ''sdp-offer''),
      createdAnswer = Some (Description Answer ''sdp-answer''),
      acceptsLocal = (\<lambda>_. True), acceptsReplace = True,
      userMedia = Inr [Audio, Video], isSecureContext = True, hasGetDisplayMedia = True,
      displayMedia = Inr [Video], freshId = [], isoNow = []\<rparr>"

definition peer :: Participant where
  "peer = \<lparr>userId = ''u2'', displayName = [0x42]\<rparr>"

definition joinedEngine :: engine where
  "joinedEngine = (initialEngine ''room'' None)
     \<lparr>peerConnectionRef := Some (newPeerConnection []), socketRef := Some ()\<rparr>"

definition callEngine :: engine where
  "callEngine = joinedEngine
     \<lparr>cameraStreamRef := Some [Track 0 Audio, Track 1 Video],
      localStreamRef := Some [Track 0 Audio, Track 1 Video],
      peerConnectionRef := Some (newPeerConnection [Track 0 Audio, Track 1 Video]),
      trackEnabled := (\<lambda>i. i < 2), trackLive := (\<lambda>i. i < 2), nextTrackId := 2,
      state := initialState\<lparr>localStream := Some [Track 0 Audio, Track 1 Video]\<rparr>\<rparr>"


definition awaitingAnswerEngine :: engine where
  "awaitingAnswerEngine = callEngine\<lparr>iceCandidatesQueueRef := [''c1''], isInitiatorRef := True\<rparr>"

definition negotiatedEngine :: engine where
  "negotiatedEngine = callEngine
     \<lparr>peerConnectionRef :=
        Some ((newPeerConnection [Track 0 Audio, Track 1 Video])
               \<lparr>remoteDescription := Some (Description Answer ''a'')\<rparr>),
      hasRemoteDescriptionRef := True, isInitiatorRef := True\<rparr>"

definition cand :: "string \<Rightarrow> IceCandidateData" where
  "cand c = \<lparr>candidate = c, candidate_from = peer\<rparr>"

definition offerFromPeer :: OfferData where
  "offerFromPeer = \<lparr>offer = Description Offer ''o'', offer_from = peer\<rparr>"

definition endedByPeer :: SessionEndedData where
  "endedByPeer = \<lparr>ended_sessionId = ''room'', endedBy = peer\<rparr>"

definition firstJoined :: SessionJoinedData where
  "firstJoined = \<lparr>joined_sessionId = ''room'', participants = [''u1''], joined_isInitiator = True\<rparr>"

definition secondJoined :: SessionJoinedData where
  "secondJoined = \<lparr>joined_sessionId = ''room'', participants = [''u1'', ''u2''],
                    joined_isInitiator = False\<rparr>"

text \<open>
  A browser that rejects the candidate \<open>''bad''\<close> and accepts everything else, an answer,
  and the joined engine after three candidates arrived ahead of the answer.
\<close>

definition rejectingEnv :: env where
  "rejectingEnv = acceptingEnv\<lparr>acceptsCandidate := (\<lambda>c. c \<noteq> ''bad'')\<rparr>"

definition answerFromPeer :: AnswerData where
  "answerFromPeer = \<lparr>answer = Description Answer ''a'', answer_from = peer\<rparr>"

definition threeQueuedEngine :: engine where
  "threeQueuedEngine =
     fold (handleIceCandidate rejectingEnv) [cand ''c1'', cand ''bad'', cand ''c3''] joinedEngine"

section \<open>Properties\<close>

subsection \<open>Offers, answers and the candidate queue\<close>

lemma emitted_simps [simp]:
  "trace (emitted e s) = trace s @ [e]"
  "peerConnectionRef (emitted e s) = peerConnectionRef s"
  "iceCandidatesQueueRef (emitted e s) = iceCandidatesQueueRef s"
  "hasRemoteDescriptionRef (emitted e s) = hasRemoteDescriptionRef s"
  "socketRef (emitted e s) = socketRef s"
  "sessionId (emitted e s) = sessionId s"
  by (simp_all add: emitted_def)

lemma addIceCandidates_accepted:
  assumes "peerConnectionRef s = Some pc" "remoteDescription pc \<noteq> None"
    "\<forall>c\<in>set cs. acceptsCandidate ev c"
  shows "addIceCandidates ev cs s =
     Returned () (s\<lparr>peerConnectionRef := Some (pc\<lparr>remoteCandidates := remoteCandidates pc @ cs\<rparr>),
                    trace := trace s @ map AddIceCandidate cs\<rparr>)"
  using assms
proof (induction cs arbitrary: s pc)
  case Nil
  then show ?case by simp
next
  case (Cons c cs)
  let ?pc = "pc\<lparr>remoteCandidates := remoteCandidates pc @ [c]\<rparr>"
  let ?s = "(emitted (AddIceCandidate c) s)\<lparr>peerConnectionRef := Some ?pc\<rparr>"
  have step: "addIceCandidate ev c s = Returned () ?s"
    using Cons.prems by (auto simp: addIceCandidate_def Let_def)
  have "addIceCandidates ev cs ?s =
     Returned () (?s\<lparr>peerConnectionRef := Some (?pc\<lparr>remoteCandidates := remoteCandidates ?pc @ cs\<rparr>),
                    trace := trace ?s @ map AddIceCandidate cs\<rparr>)"
    by (rule Cons.IH) (use Cons.prems in auto)
  then show ?case
    by (simp add: step andThen_def emitted_def)
qed

lemma fold_handleIceCandidate_queued:
  assumes "peerConnectionRef s \<noteq> None" "\<not> hasRemoteDescriptionRef s"
  shows "fold (handleIceCandidate ev) ds s =
         s\<lparr>iceCandidatesQueueRef := iceCandidatesQueueRef s @ map candidate ds\<rparr>"
  using assms
proof (induction ds arbitrary: s)
  case Nil
  then show ?case by simp
next
  case (Cons d ds)
  then show ?case by (simp add: handleIceCandidate_def)
qed

lemma handleAnswer_accepted:
  assumes "peerConnectionRef s = Some pc" "acceptsRemote ev (answer d)"
    "\<forall>c\<in>set (iceCandidatesQueueRef s). acceptsCandidate ev c"
  shows "handleAnswer ev d s =
     s\<lparr>peerConnectionRef :=
          Some (pc\<lparr>remoteDescription := Some (answer d),
                   remoteCandidates := remoteCandidates pc @ iceCandidatesQueueRef s\<rparr>),
        hasRemoteDescriptionRef := True,
        iceCandidatesQueueRef := [],
        trace := trace s @ SetRemoteDescription (answer d) # map AddIceCandidate (iceCandidatesQueueRef s),
        state := (state s)\<lparr>peerDisplayName := Some (displayName (answer_from d))\<rparr>\<rparr>"
proof -
  let ?pc1 = "pc\<lparr>remoteDescription := Some (answer d)\<rparr>"
  let ?s2 = "(emitted (SetRemoteDescription (answer d)) s)
               \<lparr>peerConnectionRef := Some ?pc1, hasRemoteDescriptionRef := True\<rparr>"
  have set: "setRemoteDescription ev (answer d) s =
      Returned () ((emitted (SetRemoteDescription (answer d)) s)\<lparr>peerConnectionRef := Some ?pc1\<rparr>)"
    using assms by (simp add: setRemoteDescription_def Let_def)
  have flush: "addIceCandidates ev (iceCandidatesQueueRef s) ?s2 =
      Returned () (?s2\<lparr>peerConnectionRef :=
                         Some (?pc1\<lparr>remoteCandidates := remoteCandidates ?pc1 @ iceCandidatesQueueRef s\<rparr>),
                       trace := trace ?s2 @ map AddIceCandidate (iceCandidatesQueueRef s)\<rparr>)"
    by (rule addIceCandidates_accepted) (use assms in auto)
  show ?thesis
    using assms(1)
    by (simp add: handleAnswer_def handleAnswer_try_def andThen_def set flush Let_def)
       (simp add: emitted_def)
qed


text \<open>
  C10. When an offer, an answer or an ICE candidate arrives while the hook holds no peer
  connection, the handler returns the engine as it was: the candidate is not queued, no
  answer is created or sent, and the remote-description flag is untouched.
\<close>

theorem C10_no_peer_connection:
  assumes "peerConnectionRef s = None"
  shows "handleOffer ev od s = s \<and> handleAnswer ev ad s = s \<and> handleIceCandidate ev cd s = s"
  using assms by (simp add: handleOffer_def handleAnswer_def handleIceCandidate_def)

theorem C10_no_peer_connection_witness:
  "peerConnectionRef (initialEngine ''room'' None) = None
   \<and> handleOffer acceptingEnv \<lparr>offer = Description Offer ''o'', offer_from = peer\<rparr>
        (initialEngine ''room'' None) = initialEngine ''room'' None
   \<and> handleAnswer acceptingEnv \<lparr>answer = Description Answer ''a'', answer_from = peer\<rparr>
        (initialEngine ''room'' None) = initialEngine ''room'' None
   \<and> handleIceCandidate acceptingEnv \<lparr>candidate = ''c1'', candidate_from = peer\<rparr>
        (initialEngine ''room'' None) = initialEngine ''room'' None"
proof -
  have h: "peerConnectionRef (initialEngine ''room'' None) = None"
    by (simp add: initialEngine_def)
  show ?thesis
    using h C10_no_peer_connection [OF h] by simp
qed

lemma handleIceCandidate_applied:
  assumes "peerConnectionRef s = Some pc" "hasRemoteDescriptionRef s"
    "remoteDescription pc \<noteq> None" "acceptsCandidate ev (candidate d)"
  shows "handleIceCandidate ev d s =
     s\<lparr>trace := trace s @ [AddIceCandidate (candidate d)],
       peerConnectionRef := Some (pc\<lparr>remoteCandidates := remoteCandidates pc @ [candidate d]\<rparr>)\<rparr>"
  using assms by (simp add: handleIceCandidate_def addIceCandidate_def Let_def emitted_def)

lemma handleOffer_flushed:
  assumes "peerConnectionRef s = Some pc" "acceptsRemote ev (offer d)"
    "\<forall>c\<in>set (iceCandidatesQueueRef s). acceptsCandidate ev c"
  shows "map_option remoteCandidates (peerConnectionRef (handleOffer ev d s))
           = Some (remoteCandidates pc @ iceCandidatesQueueRef s)
       \<and> map_option remoteDescription (peerConnectionRef (handleOffer ev d s))
           = Some (Some (offer d))
       \<and> iceCandidatesQueueRef (handleOffer ev d s) = []
       \<and> hasRemoteDescriptionRef (handleOffer ev d s)"
proof -
  let ?pc1 = "pc\<lparr>remoteDescription := Some (offer d)\<rparr>"
  let ?s2 = "(emitted (SetRemoteDescription (offer d)) s)
               \<lparr>peerConnectionRef := Some ?pc1, hasRemoteDescriptionRef := True\<rparr>"
  have set: "setRemoteDescription ev (offer d) s =
      Returned () ((emitted (SetRemoteDescription (offer d)) s)\<lparr>peerConnectionRef := Some ?pc1\<rparr>)"
    using assms by (simp add: setRemoteDescription_def Let_def)
  have flush: "addIceCandidates ev (iceCandidatesQueueRef s) ?s2 =
      Returned () (?s2\<lparr>peerConnectionRef :=
                         Some (?pc1\<lparr>remoteCandidates := remoteCandidates ?pc1 @ iceCandidatesQueueRef s\<rparr>),
                       trace := trace ?s2 @ map AddIceCandidate (iceCandidatesQueueRef s)\<rparr>)"
    by (rule addIceCandidates_accepted) (use assms in auto)
  show ?thesis
    using assms(1)
    by (simp add: handleOffer_def handleOffer_try_def andThen_def set flush Let_def)
       (simp add: createAnswer_def setLocalDescription_def sendAnswer_def socket_emit_def
          emitted_def Let_def split: option.splits)
qed

text \<open>
  The run in which the browser accepts the description and every candidate: candidates
  that arrive while the hook has a peer connection and no remote description yet are
  queued in arrival order and none is handed to the connection; when the answer (or the
  offer) is applied, the queue is handed over once, in arrival order, and left empty; a
  candidate that arrives afterwards is handed over at once and not queued.
\<close>

lemma candidates_flushed_when_accepted:
  assumes pc: "peerConnectionRef s = Some pc"
    and norem: "\<not> hasRemoteDescriptionRef s"
    and ans: "acceptsRemote ev (answer ad)"
    and off: "acceptsRemote ev (offer od)"
    and cands: "\<forall>c\<in>set (iceCandidatesQueueRef s @ map candidate ds). acceptsCandidate ev c"
    and late: "acceptsCandidate ev (candidate d')"
    and buffered: "buffered = fold (handleIceCandidate ev) ds s"
    and answered: "answered = handleAnswer ev ad buffered"
    and offered: "offered = handleOffer ev od buffered"
  shows "buffered = s\<lparr>iceCandidatesQueueRef := iceCandidatesQueueRef s @ map candidate ds\<rparr>
       \<and> peerConnectionRef answered =
           Some (pc\<lparr>remoteDescription := Some (answer ad),
                    remoteCandidates := remoteCandidates pc @ iceCandidatesQueueRef s @ map candidate ds\<rparr>)
       \<and> trace answered =
           trace s @ SetRemoteDescription (answer ad)
                     # map AddIceCandidate (iceCandidatesQueueRef s @ map candidate ds)
       \<and> iceCandidatesQueueRef answered = [] \<and> hasRemoteDescriptionRef answered
       \<and> map_option remoteCandidates (peerConnectionRef offered) =
           Some (remoteCandidates pc @ iceCandidatesQueueRef s @ map candidate ds)
       \<and> iceCandidatesQueueRef offered = [] \<and> hasRemoteDescriptionRef offered
       \<and> map_option remoteCandidates (peerConnectionRef (handleIceCandidate ev d' answered)) =
           Some (remoteCandidates pc @ iceCandidatesQueueRef s @ map candidate ds @ [candidate d'])
       \<and> iceCandidatesQueueRef (handleIceCandidate ev d' answered) = []"
proof -
  have b: "buffered = s\<lparr>iceCandidatesQueueRef := iceCandidatesQueueRef s @ map candidate ds\<rparr>"
    unfolding buffered using pc norem by (intro fold_handleIceCandidate_queued) auto
  have bpc: "peerConnectionRef buffered = Some pc"
    and bq: "iceCandidatesQueueRef buffered = iceCandidatesQueueRef s @ map candidate ds"
    and btr: "trace buffered = trace s"
    by (simp_all add: b pc)
  have bc: "\<forall>c\<in>set (iceCandidatesQueueRef buffered). acceptsCandidate ev c"
    using cands by (simp add: bq)
  have a: "answered =
     buffered\<lparr>peerConnectionRef :=
          Some (pc\<lparr>remoteDescription := Some (answer ad),
                   remoteCandidates := remoteCandidates pc @ iceCandidatesQueueRef buffered\<rparr>),
        hasRemoteDescriptionRef := True,
        iceCandidatesQueueRef := [],
        trace := trace buffered @ SetRemoteDescription (answer ad)
                   # map AddIceCandidate (iceCandidatesQueueRef buffered),
        state := (state buffered)\<lparr>peerDisplayName := Some (displayName (answer_from ad))\<rparr>\<rparr>"
    unfolding answered by (rule handleAnswer_accepted [OF bpc ans bc])
  have apc: "peerConnectionRef answered =
           Some (pc\<lparr>remoteDescription := Some (answer ad),
                    remoteCandidates := remoteCandidates pc @ iceCandidatesQueueRef s @ map candidate ds\<rparr>)"
    and atr: "trace answered = trace s @ SetRemoteDescription (answer ad)
                     # map AddIceCandidate (iceCandidatesQueueRef s @ map candidate ds)"
    and aq: "iceCandidatesQueueRef answered = []" and af: "hasRemoteDescriptionRef answered"
    by (simp_all add: a bq btr)
  have o: "map_option remoteCandidates (peerConnectionRef offered) =
           Some (remoteCandidates pc @ iceCandidatesQueueRef s @ map candidate ds)
       \<and> iceCandidatesQueueRef offered = [] \<and> hasRemoteDescriptionRef offered"
    unfolding offered using handleOffer_flushed [OF bpc off bc] by (simp add: bq)
  have l: "handleIceCandidate ev d' answered =
     answered\<lparr>trace := trace answered @ [AddIceCandidate (candidate d')],
       peerConnectionRef := Some ((pc\<lparr>remoteDescription := Some (answer ad),
                    remoteCandidates := remoteCandidates pc @ iceCandidatesQueueRef s @ map candidate ds\<rparr>)
            \<lparr>remoteCandidates := remoteCandidates (pc\<lparr>remoteDescription := Some (answer ad),
                    remoteCandidates := remoteCandidates pc @ iceCandidatesQueueRef s @ map candidate ds\<rparr>) @ [candidate d']\<rparr>)\<rparr>"
    by (rule handleIceCandidate_applied [OF apc af _ late]) simp
  show ?thesis
    using b apc atr aq af o by (simp add: l)
qed

lemma candidates_flushed_when_accepted_example:
  "peerConnectionRef joinedEngine = Some (newPeerConnection [])
   \<and> \<not> hasRemoteDescriptionRef joinedEngine
   \<and> iceCandidatesQueueRef (fold (handleIceCandidate acceptingEnv) [cand ''c1'', cand ''c2'', cand ''c3''] joinedEngine)
       = [''c1'', ''c2'', ''c3'']
   \<and> map_option remoteCandidates (peerConnectionRef
        (handleAnswer acceptingEnv \<lparr>answer = Description Answer ''a'', answer_from = peer\<rparr>
          (fold (handleIceCandidate acceptingEnv) [cand ''c1'', cand ''c2'', cand ''c3''] joinedEngine)))
       = Some [''c1'', ''c2'', ''c3'']
   \<and> map_option remoteCandidates (peerConnectionRef
        (handleIceCandidate acceptingEnv (cand ''c4'')
          (handleAnswer acceptingEnv \<lparr>answer = Description Answer ''a'', answer_from = peer\<rparr>
            (fold (handleIceCandidate acceptingEnv) [cand ''c1'', cand ''c2'', cand ''c3''] joinedEngine))))
       = Some [''c1'', ''c2'', ''c3'', ''c4'']"
proof -
  have pc: "peerConnectionRef joinedEngine = Some (newPeerConnection [])"
    and norem: "\<not> hasRemoteDescriptionRef joinedEngine"
    and q: "iceCandidatesQueueRef joinedEngine = []"
    by (simp_all add: joinedEngine_def initialEngine_def)
  have ans: "acceptsRemote acceptingEnv (answer \<lparr>answer = Description Answer ''a'', answer_from = peer\<rparr>)"
    and off: "acceptsRemote acceptingEnv (offer \<lparr>offer = Description Offer ''o'', offer_from = peer\<rparr>)"
    and late: "acceptsCandidate acceptingEnv (candidate (cand ''c4''))"
    and cands: "\<forall>c\<in>set (iceCandidatesQueueRef joinedEngine
                @ map candidate [cand ''c1'', cand ''c2'', cand ''c3'']). acceptsCandidate acceptingEnv c"
    by (simp_all add: acceptingEnv_def)
  note th = candidates_flushed_when_accepted
        [OF pc norem ans off cands late refl refl refl]
  have queued: "iceCandidatesQueueRef
      (fold (handleIceCandidate acceptingEnv) [cand ''c1'', cand ''c2'', cand ''c3''] joinedEngine)
       = [''c1'', ''c2'', ''c3'']"
    by (simp only: th [THEN conjunct1]) (simp add: q cand_def)
  show ?thesis
    using pc norem queued th [THEN conjunct2]
    by (simp add: q cand_def newPeerConnection_def)
qed

lemma threeQueuedEngine_eq:
  "threeQueuedEngine = joinedEngine\<lparr>iceCandidatesQueueRef := [''c1'', ''bad'', ''c3'']\<rparr>"
  by (simp add: threeQueuedEngine_def handleIceCandidate_def joinedEngine_def initialEngine_def
      cand_def)

lemma handleAnswer_rejected:
  "handleAnswer rejectingEnv answerFromPeer threeQueuedEngine =
     joinedEngine
       \<lparr>iceCandidatesQueueRef := [''c1'', ''bad'', ''c3''],
        hasRemoteDescriptionRef := True,
        peerConnectionRef :=
          Some ((newPeerConnection [])\<lparr>remoteDescription := Some (Description Answer ''a''),
                                         remoteCandidates := [''c1'']\<rparr>),
        trace := [SetRemoteDescription (Description Answer ''a''), AddIceCandidate ''c1'',
                  AddIceCandidate ''bad'', OnError ''Failed to establish connection'']\<rparr>"
  by (simp add: threeQueuedEngine_eq handleAnswer_def handleAnswer_try_def andThen_def
      setRemoteDescription_def addIceCandidate_def emitted_def Let_def rejectingEnv_def
      acceptingEnv_def answerFromPeer_def joinedEngine_def initialEngine_def
      newPeerConnection_def)

text \<open>
  C1. The queue is meant to be handed over once, in arrival order, and left empty. When
  the browser rejects one queued candidate, the flush loop throws before the queue is
  reset and after the remote-description flag is set. With \<open>c1\<close>, \<open>bad\<close>, \<open>c3\<close> queued
  ahead of the answer: after the answer the queue still holds all three, only \<open>c1\<close> has
  reached the connection and \<open>c3\<close> was never tried; a candidate \<open>c4\<close> that arrives next
  is applied ahead of \<open>c3\<close>; and the next offer or answer hands \<open>c1\<close> to the connection a
  second time and again leaves the queue full.
\<close>

theorem C1_rejected_candidate_keeps_queue:
  "iceCandidatesQueueRef threeQueuedEngine = [''c1'', ''bad'', ''c3'']
   \<and> iceCandidatesQueueRef (handleAnswer rejectingEnv answerFromPeer threeQueuedEngine)
        = [''c1'', ''bad'', ''c3'']
   \<and> hasRemoteDescriptionRef (handleAnswer rejectingEnv answerFromPeer threeQueuedEngine)
   \<and> map_option remoteCandidates
        (peerConnectionRef (handleAnswer rejectingEnv answerFromPeer threeQueuedEngine))
        = Some [''c1'']
   \<and> map_option remoteCandidates
        (peerConnectionRef
          (handleIceCandidate rejectingEnv (cand ''c4'')
            (handleAnswer rejectingEnv answerFromPeer threeQueuedEngine)))
        = Some [''c1'', ''c4'']
   \<and> map_option remoteCandidates
        (peerConnectionRef
          (handleOffer rejectingEnv offerFromPeer
            (handleAnswer rejectingEnv answerFromPeer threeQueuedEngine)))
        = Some [''c1'', ''c1'']
   \<and> map_option remoteCandidates
        (peerConnectionRef
          (handleAnswer rejectingEnv answerFromPeer
            (handleAnswer rejectingEnv answerFromPeer threeQueuedEngine)))
        = Some [''c1'', ''c1'']
   \<and> iceCandidatesQueueRef
          (handleOffer rejectingEnv offerFromPeer
            (handleAnswer rejectingEnv answerFromPeer threeQueuedEngine))
        = [''c1'', ''bad'', ''c3'']"
  by (simp add: threeQueuedEngine_eq handleAnswer_rejected)
     (simp add: handleAnswer_def handleAnswer_try_def handleOffer_def handleOffer_try_def
      handleIceCandidate_def andThen_def setRemoteDescription_def addIceCandidate_def
      emitted_def Let_def rejectingEnv_def acceptingEnv_def answerFromPeer_def offerFromPeer_def
      joinedEngine_def initialEngine_def newPeerConnection_def cand_def)




subsection \<open>Teardown\<close>

lemma stopTracks_closed:
  "stopTracks st s =
     s\<lparr>trace := trace s @ map (\<lambda>t. StopTrack (track_id t)) st,
       trackLive := (\<lambda>i. trackLive s i \<and> i \<notin> track_id ` set st)\<rparr>"
  unfolding stopTracks_def
proof (induction st arbitrary: s)
  case Nil
  then show ?case by simp
next
  case (Cons t ts)
  have "fold stopTrack (t # ts) s = fold stopTrack ts (stopTrack t s)"
    by simp
  also have "\<dots> = (stopTrack t s)
       \<lparr>trace := trace (stopTrack t s) @ map (\<lambda>t. StopTrack (track_id t)) ts,
        trackLive := (\<lambda>i. trackLive (stopTrack t s) i \<and> i \<notin> track_id ` set ts)\<rparr>"
    by (rule Cons.IH)
  also have "\<dots> = s\<lparr>trace := trace s @ map (\<lambda>t. StopTrack (track_id t)) (t # ts),
       trackLive := (\<lambda>i. trackLive s i \<and> i \<notin> track_id ` set (t # ts))\<rparr>"
    by (cases s) (auto simp: stopTrack_def emitted_def fun_eq_iff)
  finally show ?case .
qed

lemma stopStreamRefs_closed:
  "stopStreamRefs s =
     s\<lparr>screenStreamRef := None, cameraStreamRef := None, localStreamRef := None,
       trace := trace s @ map (\<lambda>t. StopTrack (track_id t)) (localTracks s),
       trackLive := (\<lambda>i. trackLive s i \<and> i \<notin> track_id ` set (localTracks s))\<rparr>"
  by (cases s)
     (auto simp: stopStreamRefs_def stopTracks_closed localTracks_def streamTracks_def Let_def
        fun_eq_iff split: option.splits)

lemma endSession_closed:
  "endSession s =
     s\<lparr>screenStreamRef := None, cameraStreamRef := None, localStreamRef := None,
       peerConnectionRef := None, socketRef := None,
       isConnected := (if socketRef s = None then isConnected s else False),
       hasRemoteDescriptionRef := False, iceCandidatesQueueRef := [], state := initialState,
       trackLive := (\<lambda>i. trackLive s i \<and> i \<notin> track_id ` set (localTracks s)),
       trace := trace s @ map (\<lambda>t. StopTrack (track_id t)) (localTracks s)
                @ (if peerConnectionRef s = None then [] else [ClosePeerConnection])
                @ (if socketRef s = None then []
                   else [Emit (EndSession (sessionId s)), Emit (LeaveSession (sessionId s)),
                         IoDisconnect])\<rparr>"
  by (cases s)
     (simp add: endSession_def stopStreamRefs_closed closePeerConnection_def endSessionCall_def
        leaveSession_def disconnect_def socket_emit_def emitted_def Let_def)

lemma handleSessionEnded_closed:
  "handleSessionEnded d s =
     s\<lparr>screenStreamRef := None, cameraStreamRef := None, localStreamRef := None,
       peerConnectionRef := None,
       hasRemoteDescriptionRef := False, iceCandidatesQueueRef := [], state := initialState,
       trackLive := (\<lambda>i. trackLive s i \<and> i \<notin> track_id ` set (localTracks s)),
       trace := trace s @ (if peerConnectionRef s = None then [] else [ClosePeerConnection])
                @ map (\<lambda>t. StopTrack (track_id t)) (localTracks s)
                @ [OnSessionEnded (displayName (endedBy d))]\<rparr>"
  by (cases s)
     (simp add: handleSessionEnded_def stopStreamRefs_closed closePeerConnection_def
        emitted_def Let_def localTracks_def)

lemma endSession_tornDown: "tornDown s \<Longrightarrow> endSession s = s"
  by (cases s) (simp add: endSession_closed tornDown_def localTracks_def streamTracks_def)

lemma tornDown_endSession: "tornDown (endSession s)"
  by (simp add: endSession_closed tornDown_def)

lemma count_list_StopTrack [simp]:
  "count_list (map (\<lambda>t. StopTrack (track_id t)) ts) (Emit e) = 0"
  by (induction ts) auto

text \<open>
  C3. With the adapter connected, endSession stops the tracks of the screen, camera and
  preview streams, closes the peer connection, emits end-session, emits leave-session
  and disconnects the socket, in that order. A second endSession returns the engine
  unchanged, so end-session is emitted once; the same count holds when a remote
  session-ended signal is handled before or after the local call. In all three runs no
  track of the three streams is live, the stream refs are cleared and the candidate
  queue is empty.
\<close>

theorem C3_endSession_idempotent:
  assumes sock: "socketRef s \<noteq> None"
  shows "trace (endSession s) =
           trace s @ map (\<lambda>t. StopTrack (track_id t)) (localTracks s)
             @ (if peerConnectionRef s = None then [] else [ClosePeerConnection])
             @ [Emit (EndSession (sessionId s)), Emit (LeaveSession (sessionId s)), IoDisconnect]
       \<and> endSession (endSession s) = endSession s
       \<and> (\<forall>x \<in> {endSession (endSession s), handleSessionEnded d (endSession s),
                 endSession (handleSessionEnded d s)}.
            count_list (trace x) (Emit (EndSession (sessionId s)))
              = count_list (trace s) (Emit (EndSession (sessionId s))) + 1
            \<and> (\<forall>t \<in> set (localTracks s). \<not> trackLive x (track_id t))
            \<and> localTracks x = [] \<and> peerConnectionRef x = None
            \<and> iceCandidatesQueueRef x = [] \<and> \<not> hasRemoteDescriptionRef x)"
proof -
  let ?e = "Emit (EndSession (sessionId s))"
  have tr: "trace (endSession s) =
           trace s @ map (\<lambda>t. StopTrack (track_id t)) (localTracks s)
             @ (if peerConnectionRef s = None then [] else [ClosePeerConnection])
             @ [Emit (EndSession (sessionId s)), Emit (LeaveSession (sessionId s)), IoDisconnect]"
    using sock by (simp add: endSession_closed)
  have idem: "endSession (endSession s) = endSession s"
    by (rule endSession_tornDown) (rule tornDown_endSession)
  have cnt: "count_list (trace (endSession s)) ?e = count_list (trace s) ?e + 1"
    by (simp add: tr)
  have fin: "(\<forall>t \<in> set (localTracks s). \<not> trackLive (endSession s) (track_id t))
      \<and> localTracks (endSession s) = [] \<and> peerConnectionRef (endSession s) = None
      \<and> iceCandidatesQueueRef (endSession s) = [] \<and> \<not> hasRemoteDescriptionRef (endSession s)"
    by (simp add: endSession_closed localTracks_def streamTracks_def)
  have remote_after: "count_list (trace (handleSessionEnded d (endSession s))) ?e
        = count_list (trace s) ?e + 1
      \<and> (\<forall>t \<in> set (localTracks s). \<not> trackLive (handleSessionEnded d (endSession s)) (track_id t))
      \<and> localTracks (handleSessionEnded d (endSession s)) = []
      \<and> peerConnectionRef (handleSessionEnded d (endSession s)) = None
      \<and> iceCandidatesQueueRef (handleSessionEnded d (endSession s)) = []
      \<and> \<not> hasRemoteDescriptionRef (handleSessionEnded d (endSession s))"
    using fin cnt by (simp add: handleSessionEnded_closed [of d "endSession s"] localTracks_def streamTracks_def)
  have sock': "socketRef (handleSessionEnded d s) \<noteq> None"
    and sid': "sessionId (handleSessionEnded d s) = sessionId s"
    using sock by (simp_all add: handleSessionEnded_closed)
  have remote_before: "count_list (trace (endSession (handleSessionEnded d s))) ?e
        = count_list (trace s) ?e + 1
      \<and> (\<forall>t \<in> set (localTracks s). \<not> trackLive (endSession (handleSessionEnded d s)) (track_id t))
      \<and> localTracks (endSession (handleSessionEnded d s)) = []
      \<and> peerConnectionRef (endSession (handleSessionEnded d s)) = None
      \<and> iceCandidatesQueueRef (endSession (handleSessionEnded d s)) = []
      \<and> \<not> hasRemoteDescriptionRef (endSession (handleSessionEnded d s))"
    using sock
    by (simp add: endSession_closed [of "handleSessionEnded d s"] localTracks_def streamTracks_def)
       (simp add: handleSessionEnded_closed localTracks_def streamTracks_def)
  show ?thesis
    using tr idem cnt fin remote_after remote_before by simp
qed

theorem C3_endSession_idempotent_witness:
  "socketRef callEngine \<noteq> None
   \<and> trace (endSession callEngine) =
       [StopTrack 0, StopTrack 1, StopTrack 0, StopTrack 1, ClosePeerConnection,
        Emit (EndSession ''room''), Emit (LeaveSession ''room''), IoDisconnect]
   \<and> endSession (endSession callEngine) = endSession callEngine
   \<and> count_list (trace (endSession (endSession callEngine))) (Emit (EndSession ''room'')) = 1
   \<and> count_list (trace (handleSessionEnded endedByPeer (endSession callEngine)))
        (Emit (EndSession ''room'')) = 1
   \<and> count_list (trace (endSession (handleSessionEnded endedByPeer callEngine)))
        (Emit (EndSession ''room'')) = 1
   \<and> \<not> trackLive (endSession (endSession callEngine)) 0
   \<and> \<not> trackLive (endSession (endSession callEngine)) 1"
proof -
  have sock: "socketRef callEngine \<noteq> None"
    and tr: "trace callEngine = []" and sid: "sessionId callEngine = ''room''"
    and pc: "peerConnectionRef callEngine \<noteq> None"
    and lt: "localTracks callEngine = [Track 0 Audio, Track 1 Video, Track 0 Audio, Track 1 Video]"
    by (simp_all add: callEngine_def joinedEngine_def initialEngine_def localTracks_def
        streamTracks_def)
  note th = C3_endSession_idempotent [OF sock, of endedByPeer]
  show ?thesis
    using sock th [THEN conjunct1] th [THEN conjunct2, THEN conjunct2]
    by (simp add: th [THEN conjunct2, THEN conjunct1] tr sid pc lt)
qed

text \<open>
  C4. The user-left handler closes the peer connection and clears what the UI shows of
  the peer, without ending the session, notifying the caller or stopping a track. It
  does not touch the candidate queue or the remote-description flag: a queued candidate
  stays queued, a set flag stays set. With the stale flag, after the next offer creates
  a new connection, a candidate that arrives before the answer is handed to a connection
  that has no remote description and is lost instead of being queued.
\<close>

theorem C4_user_left_keeps_queue_and_flag:
  "iceCandidatesQueueRef (handleUserLeft awaitingAnswerEngine) = [''c1'']
   \<and> hasRemoteDescriptionRef (handleUserLeft negotiatedEngine)
   \<and> peerConnectionRef (handleUserLeft negotiatedEngine) = None
   \<and> trace (handleUserLeft negotiatedEngine) = [ClosePeerConnection]
   \<and> localTracks (handleUserLeft negotiatedEngine) = localTracks negotiatedEngine
   \<and> trackLive (handleUserLeft negotiatedEngine) = trackLive negotiatedEngine
   \<and> iceCandidatesQueueRef (handleSessionEnded endedByPeer awaitingAnswerEngine) = []
   \<and> \<not> hasRemoteDescriptionRef (handleSessionEnded endedByPeer negotiatedEngine)
   \<and> iceCandidatesQueueRef
        (handleIceCandidate acceptingEnv (cand ''c2'')
          (handleReadyToConnect acceptingEnv (handleUserLeft negotiatedEngine))) = []
   \<and> map_option remoteCandidates (peerConnectionRef
        (handleIceCandidate acceptingEnv (cand ''c2'')
          (handleReadyToConnect acceptingEnv (handleUserLeft negotiatedEngine)))) = Some []"
  by (simp add: handleUserLeft_def closePeerConnection_def handleSessionEnded_closed
      negotiatedEngine_def awaitingAnswerEngine_def callEngine_def joinedEngine_def
      initialEngine_def emitted_def Let_def localTracks_def streamTracks_def
      handleIceCandidate_def addIceCandidate_def handleReadyToConnect_def createOffer_def
      createOffer_try_def createPeerConnection_def pc_createOffer_def setLocalDescription_def
      sendOffer_def socket_emit_def andThen_def acceptingEnv_def cand_def newPeerConnection_def)

subsection \<open>Roles and the first offer\<close>

text \<open>
  C5. The hook takes its role from the join acknowledgment. On ready-to-connect the
  participant acknowledged as initiator (the first to join) creates an offer (on a new
  peer connection if it holds none), sets it as its local description and sends it; the
  participant acknowledged as responder does nothing at all.
\<close>

theorem C5_only_initiator_offers:
  assumes "joined_isInitiator da" "\<not> joined_isInitiator db"
    and "socketRef a \<noteq> None"
    and "createdOffer ev = Some off" "acceptsLocal ev off"
  shows "isInitiatorRef (onSessionJoined da a) \<and> \<not> isInitiatorRef (onSessionJoined db b)
       \<and> trace (handleReadyToConnect ev (onSessionJoined da a)) =
           trace (if peerConnectionRef a = None then createPeerConnection a else a)
             @ [CreateOffer, SetLocalDescription off, Emit (OfferSignal (sessionId a) off)]
       \<and> handleReadyToConnect ev' (onSessionJoined db b) = onSessionJoined db b"
  using assms
  by (auto simp: onSessionJoined_def handleReadyToConnect_def createOffer_def createOffer_try_def
      pc_createOffer_def setLocalDescription_def sendOffer_def socket_emit_def andThen_def
      emitted_def Let_def createPeerConnection_def)

theorem C5_only_initiator_offers_witness:
  "joined_isInitiator firstJoined \<and> \<not> joined_isInitiator secondJoined
   \<and> trace (handleReadyToConnect acceptingEnv (onSessionJoined firstJoined callEngine)) =
       [CreateOffer, SetLocalDescription (Description Offer ''sdp-offer''),
        Emit (OfferSignal ''room'' (Description Offer ''sdp-offer''))]
   \<and> trace (handleReadyToConnect acceptingEnv (onSessionJoined secondJoined callEngine)) = []"
proof -
  have h: "joined_isInitiator firstJoined" "\<not> joined_isInitiator secondJoined"
    "socketRef callEngine \<noteq> None"
    "createdOffer acceptingEnv = Some (Description Offer ''sdp-offer'')"
    "acceptsLocal acceptingEnv (Description Offer ''sdp-offer'')"
    by (simp_all add: firstJoined_def secondJoined_def callEngine_def joinedEngine_def
        initialEngine_def acceptingEnv_def)
  have tr: "trace callEngine = []" "sessionId callEngine = ''room''"
    "peerConnectionRef callEngine \<noteq> None"
    by (simp_all add: callEngine_def joinedEngine_def initialEngine_def)
  have tr': "trace (onSessionJoined secondJoined callEngine) = []"
    by (simp add: onSessionJoined_def tr)
  show ?thesis
    using h(1,2) C5_only_initiator_offers [OF h, of callEngine acceptingEnv]
    by (simp add: tr tr')
qed

subsection \<open>Chat messages\<close>

lemma trim_empty_iff: "trim m = [] \<longleftrightarrow> (\<forall>c\<in>set m. isWhiteSpace c)"
proof
  assume "trim m = []"
  then have all: "\<forall>c\<in>set (dropWhile isWhiteSpace m). isWhiteSpace c"
    by (simp add: trim_def dropWhile_eq_Nil_conv)
  have "dropWhile isWhiteSpace m = []"
  proof (rule ccontr)
    assume ne: "dropWhile isWhiteSpace m \<noteq> []"
    then have "\<not> isWhiteSpace (hd (dropWhile isWhiteSpace m))"
      by (rule hd_dropWhile)
    moreover have "hd (dropWhile isWhiteSpace m) \<in> set (dropWhile isWhiteSpace m)"
      using ne by simp
    ultimately show False using all by blast
  qed
  then show "\<forall>c\<in>set m. isWhiteSpace c"
    by (simp add: dropWhile_eq_Nil_conv)
next
  assume "\<forall>c\<in>set m. isWhiteSpace c"
  then have d: "dropWhile isWhiteSpace m = []"
    by (simp add: dropWhile_eq_Nil_conv)
  show "trim m = []"
    unfolding trim_def d by simp
qed

text \<open>
  C8. A text that is empty or all whitespace leaves the engine as it was: nothing is
  appended and nothing is sent. Any other text is trimmed and appended to the chat log
  with isSelf set, whether or not a socket is there to carry it; the append is made
  first and the chat-message event, when there is a socket, is emitted after it.
\<close>

theorem C8_sendChatMessage:
  "((\<forall>c\<in>set text. isWhiteSpace c) \<longrightarrow> sendChatMessage ev text s = s)
   \<and> (\<not> (\<forall>c\<in>set text. isWhiteSpace c) \<longrightarrow>
        (\<exists>m. chatMessages (sendChatMessage ev text s) = chatMessages s @ [m]
           \<and> isSelf m \<and> message m = trim text
           \<and> trace (sendChatMessage ev text s) =
               trace s @ SetChatMessages m
                 # (if socketRef s = None then []
                    else [Emit (ChatMessageSignal (sessionId s) (trim text))])))"
  by (auto simp: sendChatMessage_def Let_def trim_empty_iff socket_sendChatMessage_def
      socket_emit_def emitted_def)

theorem C8_sendChatMessage_witness:
  "isWhiteSpace 0x20 \<and> isWhiteSpace 0x09 \<and> isWhiteSpace 0x0A
   \<and> sendChatMessage acceptingEnv [0x20, 0x09, 0x0A] callEngine = callEngine
   \<and> \<not> isWhiteSpace 0x68
   \<and> map message (chatMessages (sendChatMessage acceptingEnv [0x20, 0x68, 0x69, 0x20] callEngine))
        = [[0x68, 0x69]]
   \<and> map isSelf (chatMessages (sendChatMessage acceptingEnv [0x20, 0x68, 0x69, 0x20] callEngine))
        = [True]"
proof -
  have ws: "\<forall>c\<in>set [0x20, 0x09, 0x0A :: 16 word]. isWhiteSpace c"
    by (simp add: isWhiteSpace_def)
  have nws: "\<not> (\<forall>c\<in>set [0x20, 0x68, 0x69, 0x20 :: 16 word]. isWhiteSpace c)"
    by (simp add: isWhiteSpace_def)
  have tr: "trim [0x20, 0x68, 0x69, 0x20 :: 16 word] = [0x68, 0x69]"
    by (simp add: trim_def isWhiteSpace_def)
  have cm: "chatMessages callEngine = []"
    by (simp add: callEngine_def joinedEngine_def initialEngine_def)
  note a = C8_sendChatMessage [of "[0x20, 0x09, 0x0A]" acceptingEnv callEngine, THEN conjunct1, THEN mp, OF ws]
  note b = C8_sendChatMessage [of "[0x20, 0x68, 0x69, 0x20]" acceptingEnv callEngine, THEN conjunct2, THEN mp, OF nws]
  from b obtain m where
    "chatMessages (sendChatMessage acceptingEnv [0x20, 0x68, 0x69, 0x20] callEngine) = [m]"
    "isSelf m" "message m = [0x68, 0x69]"
    by (auto simp: cm tr)
  then show ?thesis
    using ws nws a by (simp add: isWhiteSpace_def)
qed

subsection \<open>Starting a session\<close>

lemma track_id_zip: "map track_id (map (\<lambda>(i, k). Track i k) zs) = map fst zs"
  by (induction zs) auto

lemma allocTracks_ids:
  "map track_id (fst (allocTracks ks s)) = [nextTrackId s ..< nextTrackId s + length ks]"
proof -
  have "map fst (zip [nextTrackId s ..< nextTrackId s + length ks] ks)
      = [nextTrackId s ..< nextTrackId s + length ks]"
    by (rule map_fst_zip) simp
  then show ?thesis
    by (simp only: allocTracks_def Let_def fst_conv track_id_zip)
qed

lemma allocTracks_frame:
  "trace (snd (allocTracks ks s)) = trace s"
  "socketRef (snd (allocTracks ks s)) = socketRef s"
  "sessionId (snd (allocTracks ks s)) = sessionId s"
  "timers (snd (allocTracks ks s)) = timers s"
  by (simp_all add: allocTracks_def Let_def)

lemma count_list_AddTrack [simp]:
  "count_list (map AddTrack ns) (Emit e) = 0"
  by (induction ns) auto

text \<open>
  C9. When the capture is granted and a token is stored, startSession asks for the
  media, creates the peer connection (adding the captured tracks), opens the socket,
  emits join-session, and sets one timer of 700 ms; when that timer fires with the
  socket still in place it emits join-session once more. The join request is thus
  emitted twice for one startSession.
\<close>

theorem C9_startSession_order:
  assumes media: "userMedia ev = Inr ks"
    and token: "authToken ev = Some tok" "tok \<noteq> []"
  shows "trace (startSession ev s) =
           trace s @ [GetUserMedia, NewRTCPeerConnection]
             @ map AddTrack [nextTrackId s ..< nextTrackId s + length ks]
             @ (if socketRef s = None then [] else [IoDisconnect])
             @ [IoConnect, Emit (JoinSession (sessionId s)),
                SetTimeout (JoinRetry (sessionId s)) 700]
       \<and> timers (startSession ev s) = timers s @ [JoinRetry (sessionId s)]
       \<and> trace (runTimer (JoinRetry (sessionId s)) (startSession ev s)) =
           trace (startSession ev s) @ [Emit (JoinSession (sessionId s))]
       \<and> count_list (trace (runTimer (JoinRetry (sessionId s)) (startSession ev s)))
             (Emit (JoinSession (sessionId s)))
           = count_list (trace s) (Emit (JoinSession (sessionId s))) + 2"
proof -
  obtain st s2 where al: "allocTracks ks (emitted GetUserMedia s) = (st, s2)"
    by (cases "allocTracks ks (emitted GetUserMedia s)")
  have ids: "map track_id st = [nextTrackId s ..< nextTrackId s + length ks]"
    using allocTracks_ids [of ks "emitted GetUserMedia s"] unfolding al by (simp add: emitted_def)
  have fr: "trace s2 = trace s @ [GetUserMedia]" "socketRef s2 = socketRef s"
    "sessionId s2 = sessionId s" "timers s2 = timers s"
    using allocTracks_frame [of ks "emitted GetUserMedia s"] unfolding al by (simp_all add: emitted_def)
  have map_ids: "map (\<lambda>t. AddTrack (track_id t)) st = map AddTrack (map track_id st)"
    by simp
  have im: "initializeMedia ev s =
      Returned st
        (s2\<lparr>cameraStreamRef := Some st, localStreamRef := Some st,
            state := (state s2)\<lparr>localStream := Some st, isAudioEnabled := True,
                                  isVideoEnabled := True, isScreenSharing := False\<rparr>\<rparr>)"
    using media by (simp add: initializeMedia_def Let_def al)
  have tr: "trace (startSession ev s) =
           trace s @ [GetUserMedia, NewRTCPeerConnection]
             @ map AddTrack [nextTrackId s ..< nextTrackId s + length ks]
             @ (if socketRef s = None then [] else [IoDisconnect])
             @ [IoConnect, Emit (JoinSession (sessionId s)),
                SetTimeout (JoinRetry (sessionId s)) 700]"
    and ti: "timers (startSession ev s) = timers s @ [JoinRetry (sessionId s)]"
    and so: "socketRef (startSession ev s) \<noteq> None"
    using token
    by (simp_all add: startSession_def startSession_try_def im andThen_def
        createPeerConnection_def connect_def joinSession_def socket_emit_def emitted_def Let_def
        fr map_ids ids del: map_map)
  have fire: "trace (runTimer (JoinRetry (sessionId s)) (startSession ev s)) =
           trace (startSession ev s) @ [Emit (JoinSession (sessionId s))]"
    using so by (simp add: joinSession_def socket_emit_def emitted_def)
  have "count_list (trace (runTimer (JoinRetry (sessionId s)) (startSession ev s)))
             (Emit (JoinSession (sessionId s)))
           = count_list (trace s) (Emit (JoinSession (sessionId s))) + 2"
    unfolding fire unfolding tr by simp
  with tr ti fire show ?thesis by simp
qed

theorem C9_startSession_order_witness:
  "userMedia acceptingEnv = Inr [Audio, Video] \<and> authToken acceptingEnv = Some ''jwt''
   \<and> trace (startSession acceptingEnv (initialEngine ''room'' None)) =
       [GetUserMedia, NewRTCPeerConnection, AddTrack 0, AddTrack 1, IoConnect,
        Emit (JoinSession ''room''), SetTimeout (JoinRetry ''room'') 700]
   \<and> timers (startSession acceptingEnv (initialEngine ''room'' None)) = [JoinRetry ''room'']
   \<and> count_list (trace (runTimer (JoinRetry ''room'')
                           (startSession acceptingEnv (initialEngine ''room'' None))))
        (Emit (JoinSession ''room'')) = 2"
proof -
  have media: "userMedia acceptingEnv = Inr [Audio, Video]"
    and token: "authToken acceptingEnv = Some ''jwt''" "''jwt'' \<noteq> []"
    by (simp_all add: acceptingEnv_def)
  have i: "trace (initialEngine ''room'' None) = []" "sessionId (initialEngine ''room'' None) = ''room''"
    "nextTrackId (initialEngine ''room'' None) = 0" "socketRef (initialEngine ''room'' None) = None"
    "timers (initialEngine ''room'' None) = []"
    by (simp_all add: initialEngine_def)
  have up: "[0 ..< 2] = [0, Suc 0]"
    by (simp add: upt_rec)
  show ?thesis
    using media token(1) C9_startSession_order [OF media token, of "initialEngine ''room'' None"]
    by (simp add: i up)
qed

subsection \<open>Mute toggles\<close>

text \<open>
  C7. With an audio and a video track in the preview stream and a socket in place,
  toggleAudio flips the enabled flag of the audio track and of no other track, and
  toggleVideo after it flips the flag of the video track and of no other; no track is
  stopped, no stream or sender is changed, and each toggle emits one media-state event
  with the new flag and the other flag as the state holds it.
\<close>

theorem C7_toggles_flip_one_flag:
  assumes au: "firstTrack Audio (localStreamRef s) = Some a"
    and vi: "firstTrack Video (localStreamRef s) = Some v"
    and distinct: "track_id a \<noteq> track_id v"
    and sock: "socketRef s \<noteq> None"
    and s1: "s1 = toggleAudio s" and s2: "s2 = toggleVideo s1"
  shows "trackEnabled s1 = (trackEnabled s)(track_id a := \<not> trackEnabled s (track_id a))
       \<and> trackEnabled s1 (track_id v) = trackEnabled s (track_id v)
       \<and> trackEnabled s2 = (trackEnabled s1)(track_id v := \<not> trackEnabled s (track_id v))
       \<and> trackEnabled s2 (track_id a) = trackEnabled s1 (track_id a)
       \<and> trace s1 = trace s @ [Emit (MediaStateSignal (sessionId s)
                                  (\<not> trackEnabled s (track_id a)) (isVideoEnabled (state s)))]
       \<and> trace s2 = trace s1 @ [Emit (MediaStateSignal (sessionId s)
                                  (\<not> trackEnabled s (track_id a)) (\<not> trackEnabled s (track_id v)))]
       \<and> isAudioEnabled (state s2) = (\<not> trackEnabled s (track_id a))
       \<and> isVideoEnabled (state s2) = (\<not> trackEnabled s (track_id v))
       \<and> (\<forall>x \<in> {s1, s2}. trackLive x = trackLive s \<and> localStreamRef x = localStreamRef s
             \<and> cameraStreamRef x = cameraStreamRef s \<and> screenStreamRef x = screenStreamRef s
             \<and> peerConnectionRef x = peerConnectionRef s)"
proof -
  have e1: "s1 = (s\<lparr>trackEnabled := (trackEnabled s)(track_id a := \<not> trackEnabled s (track_id a)),
                    state := (state s)\<lparr>isAudioEnabled := \<not> trackEnabled s (track_id a)\<rparr>\<rparr>)
                 \<lparr>trace := trace s @ [Emit (MediaStateSignal (sessionId s)
                                  (\<not> trackEnabled s (track_id a)) (isVideoEnabled (state s)))]\<rparr>"
    using au sock by (simp add: s1 toggleAudio_def sendMediaState_def socket_emit_def emitted_def Let_def)
  have vi1: "firstTrack Video (localStreamRef s1) = Some v" and sock1: "socketRef s1 \<noteq> None"
    using vi sock by (simp_all add: e1)
  have e2: "s2 = (s1\<lparr>trackEnabled := (trackEnabled s1)(track_id v := \<not> trackEnabled s1 (track_id v)),
                    state := (state s1)\<lparr>isVideoEnabled := \<not> trackEnabled s1 (track_id v)\<rparr>\<rparr>)
                 \<lparr>trace := trace s1 @ [Emit (MediaStateSignal (sessionId s1)
                                  (isAudioEnabled (state s1)) (\<not> trackEnabled s1 (track_id v)))]\<rparr>"
    using vi1 sock1 by (simp add: s2 toggleVideo_def sendMediaState_def socket_emit_def emitted_def Let_def)
  have keep: "trackEnabled s1 (track_id v) = trackEnabled s (track_id v)"
    using distinct by (simp add: e1)
  have sid: "sessionId s1 = sessionId s" and a1: "isAudioEnabled (state s1) = (\<not> trackEnabled s (track_id a))"
    by (simp_all add: e1)
  have f1: "trackLive s1 = trackLive s \<and> localStreamRef s1 = localStreamRef s
             \<and> cameraStreamRef s1 = cameraStreamRef s \<and> screenStreamRef s1 = screenStreamRef s
             \<and> peerConnectionRef s1 = peerConnectionRef s"
    by (simp add: e1)
  have f2: "trackLive s2 = trackLive s1 \<and> localStreamRef s2 = localStreamRef s1
             \<and> cameraStreamRef s2 = cameraStreamRef s1 \<and> screenStreamRef s2 = screenStreamRef s1
             \<and> peerConnectionRef s2 = peerConnectionRef s1"
    by (simp add: e2)
  have t1: "trackEnabled s1 = (trackEnabled s)(track_id a := \<not> trackEnabled s (track_id a))"
    and tr1: "trace s1 = trace s @ [Emit (MediaStateSignal (sessionId s)
                                  (\<not> trackEnabled s (track_id a)) (isVideoEnabled (state s)))]"
    by (simp_all add: e1)
  have t2: "trackEnabled s2 = (trackEnabled s1)(track_id v := \<not> trackEnabled s (track_id v))"
    and tr2: "trace s2 = trace s1 @ [Emit (MediaStateSignal (sessionId s)
                                  (\<not> trackEnabled s (track_id a)) (\<not> trackEnabled s (track_id v)))]"
    and st2: "isAudioEnabled (state s2) = (\<not> trackEnabled s (track_id a))"
      "isVideoEnabled (state s2) = (\<not> trackEnabled s (track_id v))"
    by (simp_all add: e2 keep sid a1)
  have k2: "trackEnabled s2 (track_id a) = trackEnabled s1 (track_id a)"
    using distinct by (simp add: t2)
  show ?thesis
    using t1 keep t2 k2 tr1 tr2 st2 f1 f2 by simp
qed

theorem C7_toggles_flip_one_flag_witness:
  "firstTrack Audio (localStreamRef callEngine) = Some (Track 0 Audio)
   \<and> firstTrack Video (localStreamRef callEngine) = Some (Track 1 Video)
   \<and> socketRef callEngine \<noteq> None
   \<and> \<not> trackEnabled (toggleAudio callEngine) 0 \<and> trackEnabled (toggleAudio callEngine) 1
   \<and> \<not> trackEnabled (toggleVideo (toggleAudio callEngine)) 0
   \<and> \<not> trackEnabled (toggleVideo (toggleAudio callEngine)) 1
   \<and> trace (toggleVideo (toggleAudio callEngine)) =
       [Emit (MediaStateSignal ''room'' False True), Emit (MediaStateSignal ''room'' False False)]"
proof -
  have au: "firstTrack Audio (localStreamRef callEngine) = Some (Track 0 Audio)"
    and vi: "firstTrack Video (localStreamRef callEngine) = Some (Track 1 Video)"
    and distinct: "track_id (Track 0 Audio) \<noteq> track_id (Track 1 Video)"
    and sock: "socketRef callEngine \<noteq> None"
    by (simp_all add: callEngine_def joinedEngine_def initialEngine_def firstTrack_def)
  have c: "trace callEngine = []" "sessionId callEngine = ''room''"
    "trackEnabled callEngine 0" "trackEnabled callEngine (Suc 0)" "isVideoEnabled (state callEngine)"
    by (simp_all add: callEngine_def joinedEngine_def initialEngine_def initialState_def)
  show ?thesis
    using au vi sock C7_toggles_flip_one_flag [OF au vi distinct sock refl refl]
    by (simp add: c)
qed

subsection \<open>Screen sharing without renegotiation\<close>

lemma findIndex_Some:
  "findIndex P xs = Some i \<Longrightarrow> i < length xs \<and> P (xs ! i)"
  by (induction xs arbitrary: i) (auto split: if_splits)

lemma findIndex_update:
  "findIndex P xs = Some i \<Longrightarrow> P t \<Longrightarrow> findIndex P (xs[i := t]) = Some i"
  by (induction xs arbitrary: i) (auto split: if_splits)

lemma filter_update_other:
  "i < length xs \<Longrightarrow> \<not> Q (xs ! i) \<Longrightarrow> \<not> Q t \<Longrightarrow> filter Q (xs[i := t]) = filter Q xs"
proof (induction xs arbitrary: i)
  case Nil
  then show ?case by simp
next
  case (Cons x xs)
  then show ?case by (cases i) auto
qed

lemma find_kind: "List.find (\<lambda>t. kind t = k) ts = Some t \<Longrightarrow> kind t = k"
  by (auto simp: find_Some_iff)

lemma allocTracks_emitted:
  "allocTracks ks (emitted e s) = (fst (allocTracks ks s), emitted e (snd (allocTracks ks s)))"
  by (simp add: allocTracks_def Let_def emitted_def)

lemma toggleScreenShare_start:
  assumes idle: "\<not> isScreenSharing (state s)"
    and pc: "peerConnectionRef s = Some pc"
    and sender: "findIndex (\<lambda>t. kind t = Video) (senders pc) = Some i"
    and cam: "cameraStreamRef s = Some cam"
    and env: "isSecureContext ev" "hasGetDisplayMedia ev" "displayMedia ev = Inr ks" "acceptsReplace ev"
    and sv: "List.find (\<lambda>t. kind t = Video) (fst (allocTracks ks s)) = Some sv"
  shows "peerConnectionRef (toggleScreenShare ev s) = Some (pc\<lparr>senders := (senders pc)[i := sv]\<rparr>)"
    and "trace (toggleScreenShare ev s) = trace s @ [GetDisplayMedia, ReplaceTrack (track_id sv)]"
    and "isScreenSharing (state (toggleScreenShare ev s))"
    and "cameraStreamRef (toggleScreenShare ev s) = Some cam"
    and "screenStreamRef (toggleScreenShare ev s) = Some (fst (allocTracks ks s))"
proof -
  let ?screen = "fst (allocTracks ks s)"
  let ?s2 = "emitted GetDisplayMedia (snd (allocTracks ks s))"
  have gd: "getDisplayMedia ev s = Returned ?screen ?s2"
    using env(3) by (simp add: getDisplayMedia_def Let_def allocTracks_emitted)
  have s2: "peerConnectionRef ?s2 = Some pc" "cameraStreamRef ?s2 = Some cam"
    "trace ?s2 = trace s @ [GetDisplayMedia]"
    using pc cam by (simp_all add: allocTracks_def Let_def emitted_def)
  let ?s3 = "?s2\<lparr>screenStreamRef := Some ?screen\<rparr>"
  have gvs: "getVideoSender ?s3 = Some i"
    using s2(1) sender by (simp add: getVideoSender_def)
  have rt: "replaceTrack ev i sv ?s3 =
      Returned () ((emitted (ReplaceTrack (track_id sv)) ?s3)
                     \<lparr>peerConnectionRef := Some (pc\<lparr>senders := (senders pc)[i := sv]\<rparr>)\<rparr>)"
    using s2(1) env(4) by (simp add: replaceTrack_def Let_def)
  have ss: "startSharing ev ?screen ?s2 =
      (let s5 = setLocalPreviewStream (Some sv)
                  ((emitted (ReplaceTrack (track_id sv)) ?s3)
                     \<lparr>peerConnectionRef := Some (pc\<lparr>senders := (senders pc)[i := sv]\<rparr>)\<rparr>)
       in Returned () (s5\<lparr>state := (state s5)\<lparr>isScreenSharing := True\<rparr>\<rparr>))"
    using sv by (simp add: startSharing_def firstTrack_def Let_def gvs rt andThen_def)
  have tg: "toggleScreenShare ev s =
      (let s5 = setLocalPreviewStream (Some sv)
                  ((emitted (ReplaceTrack (track_id sv)) ?s3)
                     \<lparr>peerConnectionRef := Some (pc\<lparr>senders := (senders pc)[i := sv]\<rparr>)\<rparr>)
       in s5\<lparr>state := (state s5)\<lparr>isScreenSharing := True\<rparr>\<rparr>)"
    using idle env(1,2) cam
    by (simp add: toggleScreenShare_def toggleScreenShare_try_def andThen_def gd ss Let_def)
  show "peerConnectionRef (toggleScreenShare ev s) = Some (pc\<lparr>senders := (senders pc)[i := sv]\<rparr>)"
    and "trace (toggleScreenShare ev s) = trace s @ [GetDisplayMedia, ReplaceTrack (track_id sv)]"
    and "isScreenSharing (state (toggleScreenShare ev s))"
    and "cameraStreamRef (toggleScreenShare ev s) = Some cam"
    and "screenStreamRef (toggleScreenShare ev s) = Some (fst (allocTracks ks s))"
    using s2
    by (simp_all add: tg setLocalPreviewStream_def Let_def emitted_def split: option.splits)
qed

lemma toggleScreenShare_stop:
  assumes sharing: "isScreenSharing (state s)"
    and pc: "peerConnectionRef s = Some pc"
    and sender: "findIndex (\<lambda>t. kind t = Video) (senders pc) = Some i"
    and cam: "cameraStreamRef s = Some cam"
    and cv: "List.find (\<lambda>t. kind t = Video) cam = Some cv"
    and screen: "screenStreamRef s = Some screen"
    and env: "acceptsReplace ev"
  shows "peerConnectionRef (toggleScreenShare ev s) = Some (pc\<lparr>senders := (senders pc)[i := cv]\<rparr>)"
    and "trace (toggleScreenShare ev s) =
           trace s @ map (\<lambda>t. StopTrack (track_id t)) screen @ [ReplaceTrack (track_id cv)]"
    and "\<not> isScreenSharing (state (toggleScreenShare ev s))"
    and "screenStreamRef (toggleScreenShare ev s) = None"
proof -
  let ?s1 = "(stopTracks screen s)\<lparr>screenStreamRef := None\<rparr>"
  have s1: "peerConnectionRef ?s1 = Some pc"
    "trace ?s1 = trace s @ map (\<lambda>t. StopTrack (track_id t)) screen"
    using pc by (simp_all add: stopTracks_closed)
  have gvs: "getVideoSender ?s1 = Some i"
    using s1(1) sender by (simp add: getVideoSender_def)
  have rt: "replaceTrack ev i cv ?s1 =
      Returned () ((emitted (ReplaceTrack (track_id cv)) ?s1)
                     \<lparr>peerConnectionRef := Some (pc\<lparr>senders := (senders pc)[i := cv]\<rparr>)\<rparr>)"
    using s1(1) env by (simp add: replaceTrack_def Let_def)
  have tg: "toggleScreenShare ev s =
      (let s3 = setLocalPreviewStream (Some cv)
                  ((emitted (ReplaceTrack (track_id cv)) ?s1)
                     \<lparr>peerConnectionRef := Some (pc\<lparr>senders := (senders pc)[i := cv]\<rparr>)\<rparr>)
       in s3\<lparr>state := (state s3)\<lparr>isScreenSharing := False\<rparr>\<rparr>)"
    using sharing cam cv screen
    by (simp add: toggleScreenShare_def stopScreenShare_def firstTrack_def Let_def gvs rt)
  show "peerConnectionRef (toggleScreenShare ev s) = Some (pc\<lparr>senders := (senders pc)[i := cv]\<rparr>)"
    and "trace (toggleScreenShare ev s) =
           trace s @ map (\<lambda>t. StopTrack (track_id t)) screen @ [ReplaceTrack (track_id cv)]"
    and "\<not> isScreenSharing (state (toggleScreenShare ev s))"
    and "screenStreamRef (toggleScreenShare ev s) = None"
    using s1
    by (simp_all add: tg setLocalPreviewStream_def Let_def emitted_def stopTracks_closed
        split: option.splits)
qed

text \<open>
  C6. From the camera, with a video sender on the connection and the screen capture
  granted, toggleScreenShare puts the screen track on the video sender with
  replaceTrack, and a second toggleScreenShare stops the screen tracks and puts the
  camera's video track back on the same sender. In both steps the senders differ from
  the original ones at the video sender only, so the audio senders carry the same
  tracks in all three states; the descriptions of the connection are untouched and the
  trace gains the capture, the two replaceTrack calls and the stops, and no offer or
  answer.
\<close>

theorem C6_screen_share_replaces_video_only:
  assumes idle: "\<not> isScreenSharing (state s)"
    and pc: "peerConnectionRef s = Some pc"
    and sender: "findIndex (\<lambda>t. kind t = Video) (senders pc) = Some i"
    and cam: "cameraStreamRef s = Some cam"
    and cv: "List.find (\<lambda>t. kind t = Video) cam = Some cv"
    and env: "isSecureContext ev" "hasGetDisplayMedia ev" "displayMedia ev = Inr ks" "acceptsReplace ev"
    and sv: "List.find (\<lambda>t. kind t = Video) (fst (allocTracks ks s)) = Some sv"
    and env': "acceptsReplace ev'"
    and s1: "s1 = toggleScreenShare ev s" and s2: "s2 = toggleScreenShare ev' s1"
  shows "peerConnectionRef s1 = Some (pc\<lparr>senders := (senders pc)[i := sv]\<rparr>)
       \<and> peerConnectionRef s2 = Some (pc\<lparr>senders := (senders pc)[i := cv]\<rparr>)
       \<and> i < length (senders pc) \<and> kind (senders pc ! i) = Video
       \<and> kind sv = Video \<and> kind cv = Video
       \<and> audioSenders s1 = audioSenders s \<and> audioSenders s2 = audioSenders s
       \<and> isScreenSharing (state s1) \<and> \<not> isScreenSharing (state s2)
       \<and> trace s1 = trace s @ [GetDisplayMedia, ReplaceTrack (track_id sv)]
       \<and> trace s2 = trace s1 @ map (\<lambda>t. StopTrack (track_id t)) (fst (allocTracks ks s))
                          @ [ReplaceTrack (track_id cv)]"
proof -
  note start = toggleScreenShare_start [OF idle pc sender cam env sv, folded s1]
  have ksv: "kind sv = Video" and kcv: "kind cv = Video"
    using sv cv by (auto dest: find_kind)
  have i: "i < length (senders pc)" "kind (senders pc ! i) = Video"
    using findIndex_Some [OF sender] by simp_all
  have sender1: "findIndex (\<lambda>t. kind t = Video) (senders (pc\<lparr>senders := (senders pc)[i := sv]\<rparr>)) = Some i"
    using findIndex_update [OF sender, of sv] ksv by simp
  note stop = toggleScreenShare_stop [OF start(3) start(1) sender1 start(4) cv start(5) env', folded s2]
  have a1: "audioSenders s1 = audioSenders s"
    using i ksv by (simp add: audioSenders_def start(1) pc filter_update_other)
  have a2: "audioSenders s2 = audioSenders s"
    using i kcv by (simp add: audioSenders_def stop(1) pc filter_update_other)
  show ?thesis
    using start(1,2,3) stop(1,2,3) i ksv kcv a1 a2 by simp
qed

theorem C6_screen_share_replaces_video_only_witness:
  "\<not> isScreenSharing (state callEngine)
   \<and> map_option senders (peerConnectionRef callEngine) = Some [Track 0 Audio, Track 1 Video]
   \<and> map_option senders (peerConnectionRef (toggleScreenShare acceptingEnv callEngine))
        = Some [Track 0 Audio, Track 2 Video]
   \<and> map_option senders (peerConnectionRef
          (toggleScreenShare acceptingEnv (toggleScreenShare acceptingEnv callEngine)))
        = Some [Track 0 Audio, Track 1 Video]
   \<and> audioSenders (toggleScreenShare acceptingEnv callEngine) = [Track 0 Audio]
   \<and> audioSenders (toggleScreenShare acceptingEnv (toggleScreenShare acceptingEnv callEngine))
        = [Track 0 Audio]
   \<and> trace (toggleScreenShare acceptingEnv (toggleScreenShare acceptingEnv callEngine))
        = [GetDisplayMedia, ReplaceTrack 2, StopTrack 2, ReplaceTrack 1]"
proof -
  let ?pc = "newPeerConnection [Track 0 Audio, Track 1 Video]"
  have idle: "\<not> isScreenSharing (state callEngine)"
    and pc: "peerConnectionRef callEngine = Some ?pc"
    and cam: "cameraStreamRef callEngine = Some [Track 0 Audio, Track 1 Video]"
    and tr: "trace callEngine = []"
    by (simp_all add: callEngine_def joinedEngine_def initialEngine_def initialState_def)
  have sender: "findIndex (\<lambda>t. kind t = Video) (senders ?pc) = Some 1"
    by (simp add: newPeerConnection_def)
  have cv: "List.find (\<lambda>t. kind t = Video) [Track 0 Audio, Track 1 Video] = Some (Track 1 Video)"
    by simp
  have env: "isSecureContext acceptingEnv" "hasGetDisplayMedia acceptingEnv"
    "displayMedia acceptingEnv = Inr [Video]" "acceptsReplace acceptingEnv"
    by (simp_all add: acceptingEnv_def)
  have al: "fst (allocTracks [Video] callEngine) = [Track 2 Video]"
    by (simp add: allocTracks_def Let_def callEngine_def)
  have sv: "List.find (\<lambda>t. kind t = Video) (fst (allocTracks [Video] callEngine)) = Some (Track 2 Video)"
    by (simp add: al)
  have au: "audioSenders callEngine = [Track 0 Audio]"
    by (simp add: audioSenders_def pc newPeerConnection_def)
  note th = C6_screen_share_replaces_video_only
              [OF idle pc sender cam cv env sv env(4) refl refl]
  show ?thesis
    using idle th by (simp add: pc au tr al newPeerConnection_def)
qed

end
